theory Spec2Isabelle
  imports Complex_Main
begin

section \<open>Python primitives used by the interview bot\<close>

text \<open>
  Python \<open>str\<close> values are modelled as \<open>string\<close>, one \<open>char\<close> per character. This is
  the model of ASCII text: there \<open>str.lower\<close> is the character-wise lower-casing of the
  letters A to Z, and \<open>str.isspace\<close> holds of TAB, LF, VT, FF, CR, FS, GS, RS, US and the
  blank. Lower-casing beyond ASCII, which depends on the neighbouring characters, is
  modelled on code points in the section on Unicode text.
  Python floats are modelled as \<open>real\<close>; \<open>round(x, 3)\<close> is rounding to the nearest multiple
  of \<open>1/1000\<close>, ties to the even neighbour.
\<close>

definition isspace_chr :: "char \<Rightarrow> bool" where
  "isspace_chr c = (let n = (of_char c :: nat) in (9 \<le> n \<and> n \<le> 13) \<or> (28 \<le> n \<and> n \<le> 32))"

definition isalnum_chr :: "char \<Rightarrow> bool" where
  "isalnum_chr c = (let n = (of_char c :: nat) in
     (48 \<le> n \<and> n \<le> 57) \<or> (65 \<le> n \<and> n \<le> 90) \<or> (97 \<le> n \<and> n \<le> 122))"

definition isalnum :: "string \<Rightarrow> bool" where
  "isalnum s = (s \<noteq> [] \<and> list_all isalnum_chr s)"

definition lower_chr :: "char \<Rightarrow> char" where
  "lower_chr c =
     (case map_of (zip ''ABCDEFGHIJKLMNOPQRSTUVWXYZ'' ''abcdefghijklmnopqrstuvwxyz'') c of
        Some d \<Rightarrow> d
      | None \<Rightarrow> c)"

definition lower :: "string \<Rightarrow> string" where
  "lower s = map lower_chr s"

definition strip :: "string \<Rightarrow> string" where
  "strip s = rev (dropWhile isspace_chr (rev (dropWhile isspace_chr s)))"

text \<open>\<open>s.split()\<close>: the maximal runs of non-space characters, in order.\<close>

fun split_aux :: "string \<Rightarrow> string \<Rightarrow> string list" where
  "split_aux cur [] = (if cur = [] then [] else [cur])"
| "split_aux cur (c # cs) =
     (if isspace_chr c then (if cur = [] then split_aux [] cs else cur # split_aux [] cs)
      else split_aux (cur @ [c]) cs)"

definition split :: "string \<Rightarrow> string list" where
  "split s = split_aux [] s"

text \<open>\<open>sep.join(xs)\<close>.\<close>

fun join :: "string \<Rightarrow> string list \<Rightarrow> string" where
  "join sep [] = []"
| "join sep [x] = x"
| "join sep (x # y # ys) = x @ sep @ join sep (y # ys)"

text \<open>\<open>sub in text\<close> for strings: \<open>sub\<close> occurs as a contiguous piece of \<open>text\<close>.\<close>

fun starts_with :: "'a list \<Rightarrow> 'a list \<Rightarrow> bool" where
  "starts_with [] text = True"
| "starts_with (c # cs) [] = False"
| "starts_with (c # cs) (d # ds) = (c = d \<and> starts_with cs ds)"

fun str_contains :: "'a list \<Rightarrow> 'a list \<Rightarrow> bool" where
  "str_contains sub [] = (sub = [])"
| "str_contains sub (d # ds) = (starts_with sub (d # ds) \<or> str_contains sub ds)"

definition py_round :: "real \<Rightarrow> int" where
  "py_round x = (let f = \<lfloor>x\<rfloor>; d = x - of_int f in
     if d < 1/2 then f else if 1/2 < d then f + 1 else if even f then f else f + 1)"

definition round3 :: "real \<Rightarrow> real" where
  "round3 x = of_int (py_round (x * 1000)) / 1000"

text \<open>\<open>max(xs)\<close> on a non-empty list (the call sites guard the empty list).\<close>

fun py_max :: "real list \<Rightarrow> real" where
  "py_max [] = 0"
| "py_max (x # xs) = fold max xs x"

text \<open>\<open>np.mean\<close> of a non-empty list.\<close>

definition np_mean :: "real list \<Rightarrow> real" where
  "np_mean xs = sum_list xs / real (length xs)"

section \<open>Data model\<close>

text \<open>
  A question is the dictionary built by \<open>QuestionGenerator.generate_questions\<close>. The
  evaluator reads \<open>sample_answer\<close>, \<open>expected_keywords\<close> and \<open>evaluation_criteria\<close> with
  \<open>question.get(...)\<close> and tests their truth value, so an absent key and an empty value
  behave alike: both are the empty string or list here. \<open>db_id\<close> is absent until the
  question has been saved.
\<close>

record question =
  q_id :: int
  db_id :: "int option"
  q_question :: string
  q_type :: string
  q_difficulty :: string
  expected_keywords :: "string list"
  evaluation_criteria :: "string list"
  sample_answer :: string

record rouge =
  rouge1 :: real
  rouge2 :: real
  rougeL :: real

record f1_metrics =
  accuracy :: real
  f1_score :: real
  correlation :: real
  mean_prediction :: real
  mean_ground_truth :: real

record nlp_metrics =
  rouge_scores :: rouge
  bleu_score :: real
  f1_metrics :: f1_metrics
  composite_nlp_score :: real
  user_vs_reference :: real
  nlp_performance_category :: string

record evaluation =
  semantic_score :: real
  keyword_score :: real
  structure_score :: real
  overall_score :: real
  performance_level :: string
  color :: string
  feedback :: string
  strengths :: "string list"
  improvements :: "string list"
  nlp_metrics :: "nlp_metrics option"

text \<open>
  The libraries the evaluator calls are parameters of the model: scikit-learn's TF-IDF
  cosine similarity (\<open>None\<close> when it raises), NLTK's tokenizers and stop-word list, the
  regular-expression search (case-insensitive), the \<open>rouge_score\<close> package (reference first,
  \<open>None\<close> when it raises), \<open>np.corrcoef\<close> and the Groq chat completion that writes the
  feedback (\<open>None\<close> when it raises).
\<close>

record env =
  tfidf_cosine :: "string \<Rightarrow> string \<Rightarrow> real option"
  word_tokenize :: "string \<Rightarrow> string list"
  sent_tokenize :: "string \<Rightarrow> string list"
  stop_words :: "string list"
  re_search :: "string \<Rightarrow> string \<Rightarrow> bool"
  rouge_scorer :: "string \<Rightarrow> string \<Rightarrow> (real \<times> real \<times> real) option"
  np_corrcoef :: "real list \<Rightarrow> real list \<Rightarrow> real"
  groq_feedback :: "question \<Rightarrow> string \<Rightarrow> string option"

section \<open>Metric primitives (utils/evaluation\_metrics.py)\<close>

text \<open>
  \<open>calculate_rouge_scores\<close> takes and returns the flag \<open>use_rouge_package\<close>, which the
  source clears when the package raises. \<open>len(set(ws))\<close> is \<open>length (remdups ws)\<close>.
\<close>

definition calculate_rouge_scores :: "env \<Rightarrow> bool \<Rightarrow> string \<Rightarrow> string \<Rightarrow> rouge \<times> bool" where
  "calculate_rouge_scores e use_rouge_package generated_text reference_text =
     (case (if use_rouge_package then rouge_scorer e reference_text generated_text else None) of
        Some (r1, r2, rl) \<Rightarrow>
          (\<lparr>rouge1 = round3 r1, rouge2 = round3 r2, rougeL = round3 rl\<rparr>, True)
      | None \<Rightarrow>
          (let generated_words = remdups (split (lower generated_text));
               reference_words = remdups (split (lower reference_text))
           in if reference_words = [] then (\<lparr>rouge1 = 0, rouge2 = 0, rougeL = 0\<rparr>, False)
              else
                (let overlap = filter (\<lambda>w. w \<in> set reference_words) generated_words;
                     r1 = real (length overlap) / real (length reference_words)
                 in (\<lparr>rouge1 = round3 r1, rouge2 = round3 (r1 * 0.8), rougeL = round3 (r1 * 0.9)\<rparr>,
                     False))))"

definition bleu_precisions :: "string list \<Rightarrow> string list \<Rightarrow> real list" where
  "bleu_precisions generated_words reference_texts =
     concat (map (\<lambda>reference.
        let reference_words = split (lower reference)
        in if reference_words = [] then []
           else [real (length (filter (\<lambda>word. word \<in> set reference_words) generated_words))
                   / real (length generated_words)])
       reference_texts)"

definition calculate_bleu_score :: "string \<Rightarrow> string list \<Rightarrow> real" where
  "calculate_bleu_score generated_text reference_texts =
     (let generated_words = split (lower generated_text)
      in if generated_words = [] then 0
         else (let precisions = bleu_precisions generated_words reference_texts
               in if precisions = [] then 0 else py_max precisions))"

text \<open>
  scikit-learn's \<open>accuracy_score\<close> and \<open>f1_score(average='weighted')\<close> on binary labels:
  per label the F1 of that label against the rest (0 when it is undefined), weighted by
  the label's count among the true labels.
\<close>

definition accuracy_score :: "nat list \<Rightarrow> nat list \<Rightarrow> real" where
  "accuracy_score y_true y_pred =
     real (length (filter (\<lambda>(t, p). t = p) (zip y_true y_pred))) / real (length y_true)"

definition label_f1 :: "nat list \<Rightarrow> nat list \<Rightarrow> nat \<Rightarrow> real" where
  "label_f1 y_true y_pred c =
     (let tp = length (filter (\<lambda>(t, p). t = c \<and> p = c) (zip y_true y_pred));
          fp = length (filter (\<lambda>(t, p). t \<noteq> c \<and> p = c) (zip y_true y_pred));
          fn = length (filter (\<lambda>(t, p). t = c \<and> p \<noteq> c) (zip y_true y_pred))
      in if 2 * tp + fp + fn = 0 then 0 else real (2 * tp) / real (2 * tp + fp + fn))"

definition weighted_f1_score :: "nat list \<Rightarrow> nat list \<Rightarrow> real" where
  "weighted_f1_score y_true y_pred =
     sum_list (map (\<lambda>c. real (length (filter (\<lambda>t. t = c) y_true)) * label_f1 y_true y_pred c)
                 (remdups (y_true @ y_pred)))
       / real (length y_true)"

definition evaluate_answer_quality_metrics ::
  "env \<Rightarrow> real list \<Rightarrow> real list \<Rightarrow> real \<Rightarrow> f1_metrics" where
  "evaluate_answer_quality_metrics e predictions ground_truth threshold =
     (let pred_binary = map (\<lambda>score. if threshold \<le> score then 1 else 0) predictions;
          true_binary = map (\<lambda>score. if threshold \<le> score then 1 else 0) ground_truth;
          acc = accuracy_score true_binary pred_binary;
          f1 = weighted_f1_score true_binary pred_binary;
          corr = (if 1 < length predictions then np_corrcoef e predictions ground_truth else 0)
      in \<lparr>accuracy = round3 acc, f1_score = round3 f1, correlation = round3 corr,
          mean_prediction = round3 (np_mean predictions),
          mean_ground_truth = round3 (np_mean ground_truth)\<rparr>)"

section \<open>Answer evaluator (core/answer\_evaluator.py)\<close>

definition MIN_ANSWER_LENGTH :: nat where
  "MIN_ANSWER_LENGTH = 10"

definition evaluate_semantic_similarity :: "env \<Rightarrow> question \<Rightarrow> string \<Rightarrow> real" where
  "evaluate_semantic_similarity e question user_answer =
     (let reference_elements =
            (if sample_answer question \<noteq> [] then [sample_answer question] else [])
          @ (if expected_keywords question \<noteq> []
             then [''Key topics: '' @ join '' '' (expected_keywords question)] else [])
          @ (if evaluation_criteria question \<noteq> []
             then [''Important aspects: '' @ join '' '' (evaluation_criteria question)] else [])
          @ [q_question question]
      in if reference_elements = [] then 0.5
         else (case tfidf_cosine e user_answer (join '' '' reference_elements) of
                 None \<Rightarrow> 0.5
               | Some similarity \<Rightarrow> max 0.2 (min 1.0 (similarity + 0.3))))"

definition keyword_matched :: "string \<Rightarrow> string list \<Rightarrow> string \<Rightarrow> bool" where
  "keyword_matched user_text user_words keyword =
     (let keyword_lower = lower keyword
      in str_contains keyword_lower user_text
         \<or> keyword_lower \<in> set user_words
         \<or> list_ex (\<lambda>word. str_contains keyword_lower word) user_words)"

definition evaluate_keyword_coverage :: "env \<Rightarrow> question \<Rightarrow> string \<Rightarrow> real" where
  "evaluate_keyword_coverage e question user_answer =
     (if expected_keywords question = [] then 0.7
      else
        (let user_text = lower user_answer;
             user_words = filter (\<lambda>word. word \<notin> set (stop_words e) \<and> isalnum word)
                            (remdups (word_tokenize e user_text));
             matched_keywords =
               length (filter (keyword_matched user_text user_words) (expected_keywords question));
             total_keywords = length (expected_keywords question);
             coverage_score =
               (if 0 < total_keywords then real matched_keywords / real total_keywords else 0.7)
         in min 1.0 coverage_score))"

text \<open>The four patterns of \<open>structure_indicators\<close>; \<open>CHR 0x5C\<close> is the backslash.\<close>

definition structure_indicators :: "string list" where
  "structure_indicators =
     [CHR 0x5C # ''b(first|firstly|second|secondly|third|thirdly|finally|lastly)'' @ [CHR 0x5C] @ ''b'',
      CHR 0x5C # ''b(however|therefore|moreover|furthermore|additionally)'' @ [CHR 0x5C] @ ''b'',
      CHR 0x5C # ''b(for example|such as|specifically|particularly)'' @ [CHR 0x5C] @ ''b'',
      CHR 0x5C # ''b(in conclusion|to summarize|overall)'' @ [CHR 0x5C] @ ''b'']"

definition evaluate_answer_structure :: "env \<Rightarrow> string \<Rightarrow> real" where
  "evaluate_answer_structure e user_answer =
     (let sentences = sent_tokenize e user_answer;
          words = word_tokenize e user_answer;
          score1 = (if 3 \<le> length sentences \<and> length sentences \<le> 8 then 0.3
                    else if 1 < length sentences then 0.2 else 0);
          word_count = length (filter isalnum words);
          score2 = score1 + (if 30 \<le> word_count \<and> word_count \<le> 200 then 0.3
                             else if 20 \<le> word_count \<and> word_count \<le> 300 then 0.2 else 0);
          score3 = foldl (\<lambda>structure_score pattern.
                            if re_search e pattern user_answer then structure_score + 0.1
                            else structure_score)
                     score2 structure_indicators
      in min 1.0 score3)"

definition calculate_answer_quality_score :: "env \<Rightarrow> string \<Rightarrow> real" where
  "calculate_answer_quality_score e user_answer =
     (let word_count = length (split user_answer);
          sentence_count = length (sent_tokenize e user_answer);
          score1 = (if 30 \<le> word_count \<and> word_count \<le> 200 then 0.3
                    else if 20 \<le> word_count \<and> word_count \<le> 300 then 0.2 else 0);
          score2 = score1 + (if 2 \<le> sentence_count \<and> sentence_count \<le> 8 then 0.3 else 0);
          unique_words = length (remdups (split (lower user_answer)));
          score3 = score2 + (if 0.5 < real unique_words / real (max word_count 1) then 0.2 else 0);
          connecting_words = [''however'', ''therefore'', ''moreover'', ''furthermore'', ''additionally''];
          score4 = score3 + (if list_ex (\<lambda>word. str_contains word (lower user_answer)) connecting_words
                             then 0.2 else 0)
      in min 1.0 score4)"

definition categorize_nlp_performance :: "real \<Rightarrow> string" where
  "categorize_nlp_performance composite_score =
     (if 0.8 \<le> composite_score then ''Excellent''
      else if 0.6 \<le> composite_score then ''Good''
      else if 0.4 \<le> composite_score then ''Average''
      else ''Needs Improvement'')"

text \<open>
  \<open>_calculate_advanced_nlp_metrics\<close>. Its \<open>except\<close> branch (a bundle of default scores) is
  taken when a call inside raises; the calls modelled here are total, so the branch has
  no counterpart.
\<close>

definition calculate_advanced_nlp_metrics ::
  "env \<Rightarrow> bool \<Rightarrow> question \<Rightarrow> string \<Rightarrow> nlp_metrics \<times> bool" where
  "calculate_advanced_nlp_metrics e use_rouge_package question user_answer =
     (let reference_texts0 =
            (if sample_answer question \<noteq> [] then [sample_answer question] else [])
          @ (if expected_keywords question \<noteq> [] \<or> evaluation_criteria question \<noteq> []
             then [''A good answer should include: ''
                     @ join '', '' (expected_keywords question @ evaluation_criteria question) @ ''.'']
             else []);
          reference_texts = (if reference_texts0 = [] then [q_question question] else reference_texts0);
          primary_reference = (case reference_texts of [] \<Rightarrow> [] | r # rs \<Rightarrow> r);
          (rouge, flag) = calculate_rouge_scores e use_rouge_package user_answer primary_reference;
          bleu = calculate_bleu_score user_answer reference_texts;
          predicted_score = calculate_answer_quality_score e user_answer;
          reference_score = 0.8;
          f1m = evaluate_answer_quality_metrics e [predicted_score] [reference_score] 0.6;
          composite_score = rouge1 rouge * 0.3 + rougeL rouge * 0.3 + bleu * 0.25 + f1_score f1m * 0.15
      in (\<lparr>rouge_scores = rouge, bleu_score = round3 bleu, f1_metrics = f1m,
           composite_nlp_score = round3 composite_score,
           user_vs_reference = round3 composite_score,
           nlp_performance_category = categorize_nlp_performance composite_score\<rparr>, flag))"

definition generate_fallback_feedback :: "question \<Rightarrow> string \<Rightarrow> string" where
  "generate_fallback_feedback question user_answer =
     (let word_count = length (split user_answer);
          part1 = (if word_count < 20 then ''Consider providing more detail in your response.''
                   else if 150 < word_count then ''Try to be more concise while maintaining key points.''
                   else ''Good answer length.'');
          mentioned_keywords =
            filter (\<lambda>keyword. str_contains (lower keyword) (lower user_answer))
              (expected_keywords question);
          part2 = (if expected_keywords question = [] then []
                   else if mentioned_keywords \<noteq> []
                   then [''Great job mentioning: '' @ join '', '' mentioned_keywords @ ''.'']
                   else [''Consider including these key concepts: ''
                           @ join '', '' (take 3 (expected_keywords question)) @ ''.'']);
          part3 = (if str_contains ''. '' user_answer \<or> str_contains '':'' user_answer
                   then ''Good structure with clear points.''
                   else ''Try organizing your answer with clear, separate points.'')
      in join '' '' ([part1] @ part2 @ [part3]))"

definition generate_ai_feedback :: "env \<Rightarrow> question \<Rightarrow> string \<Rightarrow> string" where
  "generate_ai_feedback e question user_answer =
     (case groq_feedback e question user_answer of
        Some content \<Rightarrow> strip content
      | None \<Rightarrow> generate_fallback_feedback question user_answer)"

definition identify_strengths :: "real \<Rightarrow> real \<Rightarrow> real \<Rightarrow> string list" where
  "identify_strengths semantic keyword structure =
     (let strengths = (if 0.7 < semantic then [''Strong content relevance''] else [])
                    @ (if 0.7 < keyword then [''Good use of technical terminology''] else [])
                    @ (if 0.7 < structure then [''Well-organized response''] else [])
      in if strengths \<noteq> [] then strengths else [''Shows understanding of the topic''])"

definition identify_improvements :: "real \<Rightarrow> real \<Rightarrow> real \<Rightarrow> string list" where
  "identify_improvements semantic keyword structure =
     (let improvements = (if semantic < 0.5 then [''Address the question more directly''] else [])
                       @ (if keyword < 0.5 then [''Include more relevant technical terms''] else [])
                       @ (if structure < 0.5 then [''Improve answer organization and flow''] else [])
      in if improvements \<noteq> [] then improvements else [''Continue practicing to build confidence''])"

definition create_evaluation_result ::
  "real \<Rightarrow> real \<Rightarrow> real \<Rightarrow> real \<Rightarrow> string \<Rightarrow> nlp_metrics option \<Rightarrow> evaluation" where
  "create_evaluation_result semantic keyword structure overall fb nlp =
     (let (level, col) =
            (if 0.8 \<le> overall then (''Excellent'', ''green'')
             else if 0.6 \<le> overall then (''Good'', ''blue'')
             else if 0.4 \<le> overall then (''Fair'', ''orange'')
             else (''Needs Improvement'', ''red''))
      in \<lparr>semantic_score = round3 semantic, keyword_score = round3 keyword,
          structure_score = round3 structure, overall_score = round3 overall,
          performance_level = level, color = col, feedback = fb,
          strengths = identify_strengths semantic keyword structure,
          improvements = identify_improvements semantic keyword structure,
          nlp_metrics = nlp\<rparr>)"

definition short_answer_feedback :: string where
  "short_answer_feedback = ''Answer is too short. Please provide a more detailed response.''"

definition evaluate_answer :: "env \<Rightarrow> bool \<Rightarrow> question \<Rightarrow> string \<Rightarrow> evaluation \<times> bool" where
  "evaluate_answer e use_rouge_package question user_answer =
     (if length (strip user_answer) < MIN_ANSWER_LENGTH
      then (create_evaluation_result 0.1 0.1 0.1 0.1 short_answer_feedback None, use_rouge_package)
      else
        (let semantic = evaluate_semantic_similarity e question user_answer;
             keyword = evaluate_keyword_coverage e question user_answer;
             structure = evaluate_answer_structure e user_answer;
             (nlp, flag) = calculate_advanced_nlp_metrics e use_rouge_package question user_answer;
             ai_feedback = generate_ai_feedback e question user_answer;
             overall = semantic * 0.3 + keyword * 0.25 + structure * 0.25
                       + composite_nlp_score nlp * 0.2
         in (create_evaluation_result semantic keyword structure overall ai_feedback (Some nlp),
             flag)))"

text \<open>\<open>calculate_session_metrics\<close>: \<open>max\<close>/\<open>min\<close> over the dictionary of the three
  averages return the first key, in insertion order, that reaches the extreme.\<close>

record session_metrics =
  session_average :: real
  semantic_average :: "real option"
  keyword_average :: "real option"
  structure_average :: "real option"
  strongest_area :: string
  weakest_area :: string
  total_questions :: nat
  performance_distribution :: "(nat \<times> nat \<times> nat \<times> nat) option"

fun first_max_key :: "(string \<times> real) list \<Rightarrow> string" where
  "first_max_key [] = []"
| "first_max_key ((k, v) # kvs) =
     fst (fold (\<lambda>(k', v') (bk, bv). if bv < v' then (k', v') else (bk, bv)) kvs (k, v))"

fun first_min_key :: "(string \<times> real) list \<Rightarrow> string" where
  "first_min_key [] = []"
| "first_min_key ((k, v) # kvs) =
     fst (fold (\<lambda>(k', v') (bk, bv). if v' < bv then (k', v') else (bk, bv)) kvs (k, v))"

definition calculate_session_metrics :: "evaluation list \<Rightarrow> session_metrics" where
  "calculate_session_metrics evaluations =
     (if evaluations = []
      then \<lparr>session_average = 0, semantic_average = None, keyword_average = None,
            structure_average = None, strongest_area = ''None'', weakest_area = ''None'',
            total_questions = 0, performance_distribution = None\<rparr>
      else
        (let semantic_avg = np_mean (map semantic_score evaluations);
             keyword_avg = np_mean (map keyword_score evaluations);
             structure_avg = np_mean (map structure_score evaluations);
             overall_avg = np_mean (map overall_score evaluations);
             scores = [(''Content Relevance'', semantic_avg),
                       (''Technical Knowledge'', keyword_avg),
                       (''Communication Structure'', structure_avg)]
         in \<lparr>session_average = round3 overall_avg,
             semantic_average = Some (round3 semantic_avg),
             keyword_average = Some (round3 keyword_avg),
             structure_average = Some (round3 structure_avg),
             strongest_area = first_max_key scores,
             weakest_area = first_min_key scores,
             total_questions = length evaluations,
             performance_distribution = Some
               (length (filter (\<lambda>ev. 0.8 \<le> overall_score ev) evaluations),
                length (filter (\<lambda>ev. 0.6 \<le> overall_score ev \<and> overall_score ev < 0.8) evaluations),
                length (filter (\<lambda>ev. 0.4 \<le> overall_score ev \<and> overall_score ev < 0.6) evaluations),
                length (filter (\<lambda>ev. overall_score ev < 0.4) evaluations))\<rparr>))"

section \<open>Durable storage (database/models.py)\<close>

text \<open>
  The four tables, as lists of rows in insertion order. No operation of the repository
  deletes or updates a row, so an \<open>AUTOINCREMENT\<close> id is the row's position, counted
  from 1. The connection never enables foreign keys, so SQLite accepts any \<open>user_id\<close>
  and \<open>question_id\<close>. The columns that keep their defaults (\<open>questions_asked\<close>,
  \<open>avg_score\<close>, \<open>session_duration\<close>) and the time stamps are left out; \<open>answered_at\<close>
  orders the answers as they were inserted. \<open>expected_keywords\<close> holds the list that
  \<open>json.dumps\<close> wrote and \<open>json.loads\<close> reads back.
\<close>

record user_row =
  urow_id :: int
  urow_name :: string
  urow_email :: string
  urow_domain :: string
  urow_experience_level :: string

record session_row =
  srow_id :: int
  srow_user_id :: int
  srow_domain :: string

record question_row =
  qrow_id :: int
  qrow_session_id :: int
  qrow_question_text :: string
  qrow_question_type :: string
  qrow_difficulty_level :: string
  qrow_expected_keywords :: "string list"

record answer_row =
  arow_id :: int
  arow_question_id :: int
  arow_user_answer :: string
  arow_semantic_score :: real
  arow_keyword_score :: real
  arow_structure_score :: real
  arow_overall_score :: real
  arow_feedback :: string

record database =
  users :: "user_row list"
  sessions :: "session_row list"
  questions :: "question_row list"
  answers :: "answer_row list"

datatype error = IntegrityError | IndexError | KeyError

definition create_user ::
  "database \<Rightarrow> string \<Rightarrow> string \<Rightarrow> string \<Rightarrow> string \<Rightarrow> database \<times> (error + int)" where
  "create_user d name email domain experience_level =
     (if list_ex (\<lambda>u. urow_email u = email) (users d) then (d, Inl IntegrityError)
      else (let new_id = int (length (users d)) + 1
            in (d\<lparr>users := users d @ [\<lparr>urow_id = new_id, urow_name = name, urow_email = email,
                                         urow_domain = domain,
                                         urow_experience_level = experience_level\<rparr>]\<rparr>,
                Inr new_id)))"

definition get_user :: "database \<Rightarrow> int \<Rightarrow> user_row option" where
  "get_user d user_id = find (\<lambda>u. urow_id u = user_id) (users d)"

definition create_session :: "database \<Rightarrow> int \<Rightarrow> string \<Rightarrow> database \<times> int" where
  "create_session d user_id domain =
     (let new_id = int (length (sessions d)) + 1
      in (d\<lparr>sessions := sessions d @ [\<lparr>srow_id = new_id, srow_user_id = user_id,
                                         srow_domain = domain\<rparr>]\<rparr>, new_id))"

definition save_question ::
  "database \<Rightarrow> int \<Rightarrow> string \<Rightarrow> string \<Rightarrow> string \<Rightarrow> string list \<Rightarrow> database \<times> int" where
  "save_question d session_id question_text question_type difficulty_level keywords =
     (let new_id = int (length (questions d)) + 1
      in (d\<lparr>questions := questions d @ [\<lparr>qrow_id = new_id, qrow_session_id = session_id,
             qrow_question_text = question_text, qrow_question_type = question_type,
             qrow_difficulty_level = difficulty_level, qrow_expected_keywords = keywords\<rparr>]\<rparr>,
          new_id))"

definition save_answer ::
  "database \<Rightarrow> int \<Rightarrow> string \<Rightarrow> real \<Rightarrow> real \<Rightarrow> real \<Rightarrow> real \<Rightarrow> string \<Rightarrow> database \<times> int" where
  "save_answer d question_id user_answer semantic keyword structure overall fb =
     (let new_id = int (length (answers d)) + 1
      in (d\<lparr>answers := answers d @ [\<lparr>arow_id = new_id, arow_question_id = question_id,
             arow_user_answer = user_answer, arow_semantic_score = semantic,
             arow_keyword_score = keyword, arow_structure_score = structure,
             arow_overall_score = overall, arow_feedback = fb\<rparr>]\<rparr>,
          new_id))"

section \<open>Question generator (core/question\_generator.py)\<close>

text \<open>
  \<open>random.choice\<close> and \<open>_generate_single_question\<close> (the Groq call with its template
  fall-back, itself random) are parameters, indexed by the iteration that calls them.
\<close>

record question_data =
  qd_question :: string
  qd_keywords :: "string list"
  qd_criteria :: "string list"
  qd_sample_answer :: string

record question_source =
  random_choice :: "nat \<Rightarrow> string list \<Rightarrow> string"
  generate_single_question :: "nat \<Rightarrow> string \<Rightarrow> string \<Rightarrow> string \<Rightarrow> string \<Rightarrow> question_data"

definition get_difficulty_level :: "string \<Rightarrow> nat \<Rightarrow> string" where
  "get_difficulty_level experience_level question_number =
     (let difficulties =
            (if experience_level = ''Beginner'' then [''Easy'', ''Easy'', ''Medium'']
             else if experience_level = ''Intermediate'' then [''Easy'', ''Medium'', ''Medium'', ''Hard'']
             else if experience_level = ''Advanced'' then [''Medium'', ''Medium'', ''Hard'', ''Hard'']
             else [''Medium''])
      in difficulties ! (question_number mod length difficulties))"

text \<open>
  \<open>question_types\<close> may be \<open>None\<close>, which stands for the three types.
  \<open>for i in range(num_questions)\<close>: no iteration when \<open>num_questions \<le> 0\<close>; the first
  iteration raises \<open>IndexError\<close> in \<open>random.choice\<close> when \<open>question_types\<close> is empty.
\<close>

definition generate_questions ::
  "question_source \<Rightarrow> string \<Rightarrow> string \<Rightarrow> string \<Rightarrow> int \<Rightarrow> string list option
     \<Rightarrow> error + question list" where
  "generate_questions src domain experience_level job_description num_questions types_argument =
     (let question_types = (case types_argument of
                              None \<Rightarrow> [''technical'', ''behavioral'', ''situational'']
                            | Some types \<Rightarrow> types)
      in
      if 0 < num_questions \<and> question_types = [] then Inl IndexError
      else Inr (map (\<lambda>i.
        let question_type = random_choice src i question_types;
            difficulty = get_difficulty_level experience_level i;
            question_data = generate_single_question src i domain question_type difficulty
                              job_description
        in \<lparr>q_id = int i + 1, db_id = None, q_question = qd_question question_data,
            q_type = question_type, q_difficulty = difficulty,
            expected_keywords = qd_keywords question_data,
            evaluation_criteria = qd_criteria question_data,
            sample_answer = qd_sample_answer question_data\<rparr>)
        [0 ..< nat num_questions]))"

definition generate_followup_question :: "string \<Rightarrow> string \<Rightarrow> real \<Rightarrow> string option" where
  "generate_followup_question original_question user_answer score =
     (if score < 0.5
      then Some (''Could you elaborate more on your answer to: '' @ [CHR 0x27] @ original_question
                   @ [CHR 0x27] @ ''?'')
      else if 0.8 < score
      then Some (''That'' @ [CHR 0x27]
                   @ ''s a great answer! Can you share another example or go deeper into the technical details?'')
      else None)"

section \<open>Conversation manager (core/conversation\_manager.py)\<close>

text \<open>
  The session dictionary held in \<open>current_sessions\<close>. The wall-clock entries
  (\<open>start_time\<close>, \<open>end_time\<close>, \<open>duration\<close>, \<open>pause_time\<close>, the time stamp of an answer)
  are left out: no operation reads them back. \<open>final_metrics\<close> is absent until the
  session completes.
\<close>

record answer_entry =
  ans_question_id :: int
  ans_answer :: string

text \<open>
  The preferences dictionary. A caller may pass a dictionary that lacks a key: a field is
  \<open>None\<close> when its key is missing, and reading it raises \<open>KeyError\<close>.
\<close>

record session_preferences =
  num_questions :: "int option"
  question_types :: "string list option"
  difficulty_progression :: "bool option"

record session_state =
  session_id :: int
  ss_user_id :: int
  ss_domain :: string
  ss_questions :: "question list"
  current_question_index :: nat
  ss_answers :: "answer_entry list"
  evaluations :: "evaluation list"
  ss_preferences :: session_preferences
  status :: string
  final_metrics :: "session_metrics option"

text \<open>
  The manager: the database behind \<open>self.db\<close>, the dictionary \<open>current_sessions\<close> and
  the flag of the evaluator's metrics object.
\<close>

record manager =
  db :: database
  current_sessions :: "int \<rightharpoonup> session_state"
  use_rouge_package :: bool

record start_success =
  res_session_id :: int
  first_question :: "question option"
  res_total_questions :: nat
  info_domain :: string
  info_user_name :: string
  info_experience_level :: string

datatype start_result = StartError string | StartRaised error | StartSuccess start_success

definition default_preferences :: session_preferences where
  "default_preferences =
     \<lparr>num_questions = Some 5,
      question_types = Some [''technical'', ''behavioral'', ''situational''],
      difficulty_progression = Some True\<rparr>"

text \<open>The loop that saves each question and records its row id as \<open>db_id\<close>.\<close>

fun save_questions :: "database \<Rightarrow> int \<Rightarrow> question list \<Rightarrow> database \<times> question list" where
  "save_questions d sid [] = (d, [])"
| "save_questions d sid (q # qs) =
     (let (d1, question_id) = save_question d sid (q_question q) (q_type q) (q_difficulty q)
                                (expected_keywords q);
          (d2, qs') = save_questions d1 sid qs
      in (d2, q\<lparr>db_id := Some question_id\<rparr> # qs'))"

definition start_interview_session ::
  "question_source \<Rightarrow> manager \<Rightarrow> int \<Rightarrow> string \<Rightarrow> string \<Rightarrow> session_preferences option
     \<Rightarrow> manager \<times> start_result" where
  "start_interview_session src m user_id domain job_description session_preferences =
     (let prefs = (case session_preferences of None \<Rightarrow> default_preferences | Some p \<Rightarrow> p);
          (d1, sid) = create_session (db m) user_id domain
      in case get_user d1 user_id of
           None \<Rightarrow> (m\<lparr>db := d1\<rparr>, StartError ''User not found'')
         | Some user_profile \<Rightarrow>
             (case num_questions prefs of
                None \<Rightarrow> (m\<lparr>db := d1\<rparr>, StartRaised KeyError)
              | Some requested \<Rightarrow>
             (case question_types prefs of
                None \<Rightarrow> (m\<lparr>db := d1\<rparr>, StartRaised KeyError)
              | Some types \<Rightarrow>
             (case generate_questions src domain (urow_experience_level user_profile)
                     job_description requested (Some types) of
                Inl err \<Rightarrow> (m\<lparr>db := d1\<rparr>, StartRaised err)
              | Inr generated \<Rightarrow>
                  (let (d2, qs) = save_questions d1 sid generated;
                       state = \<lparr>session_id = sid, ss_user_id = user_id, ss_domain = domain,
                                ss_questions = qs, current_question_index = 0,
                                ss_answers = [], evaluations = [], ss_preferences = prefs,
                                status = ''active'', final_metrics = None\<rparr>
                   in (m\<lparr>db := d2, current_sessions := (current_sessions m)(sid \<mapsto> state)\<rparr>,
                       StartSuccess
                         \<lparr>res_session_id = sid,
                          first_question = (case qs of [] \<Rightarrow> None | q # _ \<Rightarrow> Some q),
                          res_total_questions = length qs, info_domain = domain,
                          info_user_name = urow_name user_profile,
                          info_experience_level = urow_experience_level user_profile\<rparr>))))))"

record progress =
  prog_current :: nat
  prog_total :: nat
  prog_percentage :: real

record question_answered =
  qa_evaluation :: evaluation
  qa_next_question :: question
  qa_followup_question :: "string option"
  qa_progress :: progress

text \<open>
  The result of \<open>_complete_session\<close> without its narrative parts (\<open>comprehensive_feedback\<close>,
  \<open>recommendations\<close>) and without \<open>duration_minutes\<close>; they are texts and a time computed
  from the session, and change no state.
\<close>

record session_summary =
  sum_total_questions :: nat
  sum_average_score :: real
  sum_strongest_area :: string
  sum_weakest_area :: string
  sum_performance_level :: string

record session_completed =
  sc_session_summary :: session_summary
  sc_detailed_metrics :: session_metrics

datatype answer_result =
    AnswerError string
  | AnswerRaised error
  | QuestionAnswered question_answered
  | SessionCompleted session_completed

definition get_overall_performance_level :: "real \<Rightarrow> string" where
  "get_overall_performance_level score =
     (if 0.8 \<le> score then ''Excellent''
      else if 0.6 \<le> score then ''Good''
      else if 0.4 \<le> score then ''Fair''
      else ''Needs Improvement'')"

definition complete_session :: "manager \<Rightarrow> int \<Rightarrow> session_state \<Rightarrow> manager \<times> answer_result" where
  "complete_session m sid session =
     (let metrics = calculate_session_metrics (evaluations session);
          session' = session\<lparr>status := ''completed'', final_metrics := Some metrics\<rparr>
      in (m\<lparr>current_sessions := (current_sessions m)(sid \<mapsto> session')\<rparr>,
          SessionCompleted
            \<lparr>sc_session_summary =
               \<lparr>sum_total_questions = length (ss_questions session),
                sum_average_score = session_average metrics,
                sum_strongest_area = strongest_area metrics,
                sum_weakest_area = weakest_area metrics,
                sum_performance_level = get_overall_performance_level (session_average metrics)\<rparr>,
             sc_detailed_metrics = metrics\<rparr>))"

text \<open>
  \<open>process_answer\<close>. \<open>current_question["db_id"]\<close> raises \<open>KeyError\<close> on a question that was
  never saved; the evaluation has run by then.
\<close>

definition process_answer :: "env \<Rightarrow> manager \<Rightarrow> int \<Rightarrow> string \<Rightarrow> manager \<times> answer_result" where
  "process_answer e m sid answer =
     (case current_sessions m sid of
        None \<Rightarrow> (m, AnswerError ''Session not found'')
      | Some session \<Rightarrow>
          (let current_index = current_question_index session
           in if length (ss_questions session) \<le> current_index
              then (m, AnswerError ''No more questions in session'')
              else
                (let current_question = ss_questions session ! current_index;
                     (ev, flag) = evaluate_answer e (use_rouge_package m) current_question answer
                 in case db_id current_question of
                      None \<Rightarrow> (m\<lparr>use_rouge_package := flag\<rparr>, AnswerRaised KeyError)
                    | Some question_id \<Rightarrow>
                        (let d1 = fst (save_answer (db m) question_id answer (semantic_score ev)
                                         (keyword_score ev) (structure_score ev) (overall_score ev)
                                         (feedback ev));
                             session' = session
                               \<lparr>ss_answers := ss_answers session
                                   @ [\<lparr>ans_question_id = q_id current_question, ans_answer = answer\<rparr>],
                                evaluations := evaluations session @ [ev],
                                current_question_index := current_index + 1\<rparr>;
                             m' = m\<lparr>db := d1, use_rouge_package := flag,
                                    current_sessions := (current_sessions m)(sid \<mapsto> session')\<rparr>
                         in if current_question_index session' < length (ss_questions session')
                            then
                              (let next_question =
                                     ss_questions session' ! current_question_index session';
                                   followup_question =
                                     (if overall_score ev < 0.5
                                      then generate_followup_question (q_question current_question)
                                             answer (overall_score ev)
                                      else None)
                               in (m', QuestionAnswered
                                     \<lparr>qa_evaluation = ev, qa_next_question = next_question,
                                      qa_followup_question = followup_question,
                                      qa_progress =
                                        \<lparr>prog_current = current_question_index session',
                                         prog_total = length (ss_questions session'),
                                         prog_percentage =
                                           real (current_question_index session')
                                             / real (length (ss_questions session')) * 100\<rparr>\<rparr>))
                            else complete_session m' sid session'))))"

text \<open>
  \<open>_restore_session_from_db\<close>: the session row joined with its user, the question rows
  of the session ordered by id, and the join of questions and answers that gives the
  position. \<open>list(set(types))\<close> has no fixed order; \<open>remdups\<close> picks one.
\<close>

definition session_with_user :: "database \<Rightarrow> int \<Rightarrow> (session_row \<times> user_row) option" where
  "session_with_user d sid =
     (case find (\<lambda>s. srow_id s = sid) (sessions d) of
        None \<Rightarrow> None
      | Some s \<Rightarrow> (case find (\<lambda>u. urow_id u = srow_user_id s) (users d) of
                     None \<Rightarrow> None
                   | Some u \<Rightarrow> Some (s, u)))"

definition question_rows :: "database \<Rightarrow> int \<Rightarrow> question_row list" where
  "question_rows d sid = filter (\<lambda>q. qrow_session_id q = sid) (questions d)"

definition answered_questions :: "database \<Rightarrow> int \<Rightarrow> int list" where
  "answered_questions d sid =
     concat (map (\<lambda>a. map qrow_id
                         (filter (\<lambda>q. qrow_id q = arow_question_id a \<and> qrow_session_id q = sid)
                            (questions d)))
               (answers d))"

definition restore_session_from_db :: "database \<Rightarrow> int \<Rightarrow> session_state option" where
  "restore_session_from_db d sid =
     (case session_with_user d sid of
        None \<Rightarrow> None
      | Some (session_row, user) \<Rightarrow>
          (let rows = question_rows d sid
           in if rows = [] then None
              else
                (let qs = map (\<lambda>row. \<lparr>q_id = qrow_id row, db_id = Some (qrow_id row),
                                       q_question = qrow_question_text row,
                                       q_type = qrow_question_type row,
                                       q_difficulty = qrow_difficulty_level row,
                                       expected_keywords = qrow_expected_keywords row,
                                       evaluation_criteria = [], sample_answer = []\<rparr>) rows;
                     position = length (answered_questions d sid)
                 in Some \<lparr>session_id = sid, ss_user_id = srow_user_id session_row,
                          ss_domain = srow_domain session_row, ss_questions = qs,
                          current_question_index = position, ss_answers = [], evaluations = [],
                          ss_preferences =
                            \<lparr>num_questions = Some (int (length qs)),
                             question_types = Some (remdups (map q_type qs)),
                             difficulty_progression = Some True\<rparr>,
                          status = (if position < length qs then ''active'' else ''completed''),
                          final_metrics = None\<rparr>)))"

definition get_session_status :: "manager \<Rightarrow> int \<Rightarrow> manager \<times> session_state option" where
  "get_session_status m sid =
     (case current_sessions m sid of
        Some session \<Rightarrow> (m, Some session)
      | None \<Rightarrow>
          (case restore_session_from_db (db m) sid of
             Some session_data \<Rightarrow>
               (m\<lparr>current_sessions := (current_sessions m)(sid \<mapsto> session_data)\<rparr>,
                Some session_data)
           | None \<Rightarrow> (m, None)))"

datatype pause_result = PauseError string | PauseSuccess string

definition pause_session :: "manager \<Rightarrow> int \<Rightarrow> manager \<times> pause_result" where
  "pause_session m sid =
     (case current_sessions m sid of
        None \<Rightarrow> (m, PauseError ''Session not found'')
      | Some session \<Rightarrow>
          (m\<lparr>current_sessions := (current_sessions m)(sid \<mapsto> session\<lparr>status := ''paused''\<rparr>)\<rparr>,
           PauseSuccess ''Session paused''))"

datatype resume_result = ResumeError string | ResumeSuccess question nat nat

definition resume_session :: "manager \<Rightarrow> int \<Rightarrow> manager \<times> resume_result" where
  "resume_session m sid =
     (case current_sessions m sid of
        None \<Rightarrow> (m, ResumeError ''Session not found'')
      | Some session \<Rightarrow>
          if status session \<noteq> ''paused'' then (m, ResumeError ''Session is not paused'')
          else
            (let session' = session\<lparr>status := ''active''\<rparr>;
                 m' = m\<lparr>current_sessions := (current_sessions m)(sid \<mapsto> session')\<rparr>;
                 current_index = current_question_index session'
             in if current_index < length (ss_questions session')
                then (m', ResumeSuccess (ss_questions session' ! current_index) current_index
                            (length (ss_questions session')))
                else (m', ResumeError ''No more questions in session'')))"

record partial_summary =
  questions_answered :: nat
  ps_total_questions :: nat
  average_score :: real

datatype end_result =
    EndError string
  | SessionEndedEarly partial_summary string
  | SessionCancelled string

definition end_session_early :: "manager \<Rightarrow> int \<Rightarrow> manager \<times> end_result" where
  "end_session_early m sid =
     (case current_sessions m sid of
        None \<Rightarrow> (m, EndError ''Session not found'')
      | Some session \<Rightarrow>
          if evaluations session \<noteq> []
          then
            (let partial_metrics = calculate_session_metrics (evaluations session)
             in (m\<lparr>current_sessions :=
                      (current_sessions m)(sid \<mapsto> session\<lparr>status := ''ended_early''\<rparr>)\<rparr>,
                 SessionEndedEarly
                   \<lparr>questions_answered = length (evaluations session),
                    ps_total_questions = length (ss_questions session),
                    average_score = session_average partial_metrics\<rparr>
                   ''Session ended early. You can review your progress and continue practicing.''))
          else
            (m\<lparr>current_sessions :=
                  (current_sessions m)(sid \<mapsto> session\<lparr>status := ''cancelled''\<rparr>)\<rparr>,
             SessionCancelled ''Session cancelled with no answers recorded.''))"

section \<open>Example inputs\<close>

text \<open>
  Concrete inputs for the examples below: an installation without network access and
  without the \<open>rouge_score\<close> package, whose tokenizers are the white-space split and the
  whole text as one sentence; a question source that always answers with the same template
  question; and the states of a two-question session of one user.
\<close>

definition offline_env :: env where
  "offline_env =
     \<lparr>tfidf_cosine = (\<lambda>a r. None), word_tokenize = split, sent_tokenize = (\<lambda>s. [s]),
      stop_words = [''i'', ''a'', ''an'', ''the'', ''to'', ''is''],
      re_search = (\<lambda>p s. False), rouge_scorer = (\<lambda>r g. None),
      np_corrcoef = (\<lambda>xs ys. 0), groq_feedback = (\<lambda>q a. None)\<rparr>"

definition rest_question :: question where
  "rest_question =
     \<lparr>q_id = 1, db_id = Some 1,
      q_question = ''Explain what REST API is and give an example of how you would use it.'',
      q_type = ''technical'', q_difficulty = ''Easy'', expected_keywords = [''API'', ''REST''],
      evaluation_criteria = [], sample_answer = []\<rparr>"

definition template_source :: question_source where
  "template_source =
     \<lparr>random_choice = (\<lambda>i types. types ! (i mod length types)),
      generate_single_question = (\<lambda>i domain question_type difficulty job_description.
         \<lparr>qd_question = ''Describe the difference between frontend and backend development.'',
          qd_keywords = [''code'', ''design''],
          qd_criteria = [''Clarity'', ''Relevance''],
          qd_sample_answer = []\<rparr>)\<rparr>"

definition empty_database :: database where
  "empty_database = \<lparr>users = [], sessions = [], questions = [], answers = []\<rparr>"

definition new_manager :: "bool \<Rightarrow> manager" where
  "new_manager rouge_installed =
     \<lparr>db = empty_database, current_sessions = Map.empty, use_rouge_package = rouge_installed\<rparr>"

definition example_with_user :: manager where
  "example_with_user =
     (new_manager False)\<lparr>db := fst (create_user empty_database ''Ada'' ''ada@example.org''
                                       ''Software Engineering'' ''Beginner'')\<rparr>"

definition two_technical :: session_preferences where
  "two_technical = \<lparr>num_questions = Some 2, question_types = Some [''technical''],
                    difficulty_progression = Some True\<rparr>"

definition example_started :: manager where
  "example_started =
     fst (start_interview_session template_source example_with_user 1 ''Software Engineering'' []
            (Some two_technical))"

definition example_answered :: manager where
  "example_answered = fst (process_answer offline_env example_started 1 ''yes'')"

definition example_restarted :: manager where
  "example_restarted = example_answered\<lparr>current_sessions := Map.empty, use_rouge_package := False\<rparr>"

definition example_question :: "nat \<Rightarrow> question" where
  "example_question i =
     \<lparr>q_id = int i, db_id = Some (int i),
      q_question = ''Describe the difference between frontend and backend development.'',
      q_type = ''technical'', q_difficulty = ''Easy'', expected_keywords = [''code'', ''design''],
      evaluation_criteria = [''Clarity'', ''Relevance''], sample_answer = []\<rparr>"

definition example_question_row :: "int \<Rightarrow> question_row" where
  "example_question_row i =
     \<lparr>qrow_id = i, qrow_session_id = 1,
      qrow_question_text = ''Describe the difference between frontend and backend development.'',
      qrow_question_type = ''technical'', qrow_difficulty_level = ''Easy'',
      qrow_expected_keywords = [''code'', ''design'']\<rparr>"

definition example_session :: session_state where
  "example_session =
     \<lparr>session_id = 1, ss_user_id = 1, ss_domain = ''Software Engineering'',
      ss_questions = [example_question 1, example_question 2],
      current_question_index = 0, ss_answers = [], evaluations = [],
      ss_preferences = two_technical, status = ''active'', final_metrics = None\<rparr>"

definition example_database :: database where
  "example_database =
     \<lparr>users = [\<lparr>urow_id = 1, urow_name = ''Ada'', urow_email = ''ada@example.org'',
                urow_domain = ''Software Engineering'', urow_experience_level = ''Beginner''\<rparr>],
      sessions = [\<lparr>srow_id = 1, srow_user_id = 1, srow_domain = ''Software Engineering''\<rparr>],
      questions = [example_question_row 1, example_question_row 2], answers = []\<rparr>"

definition short_evaluation :: evaluation where
  "short_evaluation =
     \<lparr>semantic_score = 1/10, keyword_score = 1/10, structure_score = 1/10, overall_score = 1/10,
      performance_level = ''Needs Improvement'', color = ''red'',
      feedback = ''Answer is too short. Please provide a more detailed response.'',
      strengths = [''Shows understanding of the topic''],
      improvements = [''Address the question more directly'',
                      ''Include more relevant technical terms'',
                      ''Improve answer organization and flow''],
      nlp_metrics = None\<rparr>"

definition example_answered_session :: session_state where
  "example_answered_session =
     example_session\<lparr>ss_answers := [\<lparr>ans_question_id = 1, ans_answer = ''yes''\<rparr>],
                     evaluations := [short_evaluation], current_question_index := 1\<rparr>"

definition example_answer_row :: answer_row where
  "example_answer_row =
     \<lparr>arow_id = 1, arow_question_id = 1, arow_user_answer = ''yes'', arow_semantic_score = 1/10,
      arow_keyword_score = 1/10, arow_structure_score = 1/10, arow_overall_score = 1/10,
      arow_feedback = ''Answer is too short. Please provide a more detailed response.''\<rparr>"

definition zero_questions :: session_preferences where
  "zero_questions = \<lparr>num_questions = Some 0,
                     question_types = Some [''technical'', ''behavioral''],
                     difficulty_progression = Some True\<rparr>"

definition only_num_questions :: session_preferences where
  "only_num_questions = \<lparr>num_questions = Some 0, question_types = None,
                         difficulty_progression = None\<rparr>"

definition example_cancelled :: manager where
  "example_cancelled = fst (end_session_early example_started 1)"

definition example_restored :: manager where
  "example_restored = fst (get_session_status example_restarted 1)"

definition restored_question :: "int \<Rightarrow> question" where
  "restored_question i =
     \<lparr>q_id = i, db_id = Some i,
      q_question = ''Describe the difference between frontend and backend development.'',
      q_type = ''technical'', q_difficulty = ''Easy'', expected_keywords = [''code'', ''design''],
      evaluation_criteria = [], sample_answer = []\<rparr>"

definition restored_session :: session_state where
  "restored_session =
     \<lparr>session_id = 1, ss_user_id = 1, ss_domain = ''Software Engineering'',
      ss_questions = [restored_question 1, restored_question 2],
      current_question_index = 1, ss_answers = [], evaluations = [],
      ss_preferences = two_technical, status = ''active'', final_metrics = None\<rparr>"

section \<open>Unicode text\<close>

text \<open>
  Text as the list of its Unicode code points, with \<open>str.lower\<close> as CPython computes it:
  each character by its lower-case mapping, except the capital sigma \<open>U+03A3\<close> (931). That
  one becomes the final small sigma \<open>U+03C2\<close> (962) when the nearest character before it
  that is not case-ignorable is cased and the nearest such character after it is not
  cased (or there is none), and the small sigma \<open>U+03C3\<close> (963) otherwise; both scans read
  the original text. The character tables are those of ASCII and of the Greek letters
  \<open>U+0391\<close> to \<open>U+03A9\<close> and \<open>U+03B1\<close> to \<open>U+03C9\<close>; the case-ignorable characters are
  the apostrophe, the full stop, the colon, the circumflex and the grave accent.
  \<open>evaluate_keyword_coverage_unicode\<close> is \<open>_evaluate_keyword_coverage\<close> on such text,
  with the tokenizer, the stop words and the expected keywords as arguments. \<open>isascii\<close> is
  \<open>str.isascii\<close>; on ASCII text \<open>lower_unicode\<close> is \<open>lower\<close> (lemma \<open>lower_unicode_ascii\<close>).
\<close>

type_synonym unicode = "nat list"

definition is_cased :: "nat \<Rightarrow> bool" where
  "is_cased c = ((65 \<le> c \<and> c \<le> 90) \<or> (97 \<le> c \<and> c \<le> 122)
                 \<or> (913 \<le> c \<and> c \<le> 929) \<or> (931 \<le> c \<and> c \<le> 937)
                 \<or> (945 \<le> c \<and> c \<le> 969))"

definition is_case_ignorable :: "nat \<Rightarrow> bool" where
  "is_case_ignorable c = (c = 39 \<or> c = 46 \<or> c = 58 \<or> c = 94 \<or> c = 96)"

definition to_lower :: "nat \<Rightarrow> nat" where
  "to_lower c = (if (65 \<le> c \<and> c \<le> 90) \<or> (913 \<le> c \<and> c \<le> 929) \<or> (931 \<le> c \<and> c \<le> 937)
                 then c + 32 else c)"

definition final_sigma :: "unicode \<Rightarrow> unicode \<Rightarrow> bool" where
  "final_sigma before after =
     ((case dropWhile is_case_ignorable before of [] \<Rightarrow> False | c # _ \<Rightarrow> is_cased c)
      \<and> (case dropWhile is_case_ignorable after of [] \<Rightarrow> True | c # _ \<Rightarrow> \<not> is_cased c))"

fun lower_unicode_from :: "unicode \<Rightarrow> unicode \<Rightarrow> unicode" where
  "lower_unicode_from before [] = []"
| "lower_unicode_from before (c # cs) =
     (if c = 931 then (if final_sigma before cs then 962 else 963) else to_lower c)
       # lower_unicode_from (c # before) cs"

definition lower_unicode :: "unicode \<Rightarrow> unicode" where
  "lower_unicode s = lower_unicode_from [] s"




definition isascii :: "string \<Rightarrow> bool" where
  "isascii s = list_all (\<lambda>c. (of_char c :: nat) < 128) s"

section \<open>A well-received answer\<close>

text \<open>
  An installation whose libraries answer: a similarity of \<open>0.7\<close>, sentences that end at a
  full stop followed by a blank, the white-space split as tokenizer, and a search that
  finds the marker \<open>however\<close> as a word, the only marker the example uses. The question
  source hands out a model answer, and the candidate gives that very answer.
\<close>

fun sentences_from :: "string \<Rightarrow> string \<Rightarrow> string list" where
  "sentences_from cur [] = (if cur = [] then [] else [cur])"
| "sentences_from cur [c] = [cur @ [c]]"
| "sentences_from cur (c # d # cs) =
     (if c = CHR ''.'' \<and> d = CHR '' '' then (cur @ [c]) # sentences_from [] cs
      else sentences_from (cur @ [c]) (d # cs))"

definition library_env :: env where
  "library_env =
     \<lparr>tfidf_cosine = (\<lambda>a r. Some 0.7), word_tokenize = split,
      sent_tokenize = sentences_from [],
      stop_words = [''i'', ''a'', ''an'', ''the'', ''to'', ''is'', ''it''],
      re_search = (\<lambda>p s. str_contains ''however'' p \<and> ''however'' \<in> set (split (lower s))),
      rouge_scorer = (\<lambda>r g. None), np_corrcoef = (\<lambda>xs ys. 0),
      groq_feedback = (\<lambda>q a. None)\<rparr>"

definition good_answer :: string where
  "good_answer = ''REST is an API style. However it needs care. I test it.''"

definition coached_question :: "int \<Rightarrow> question" where
  "coached_question i =
     \<lparr>q_id = i, db_id = Some i,
      q_question = ''Explain what REST API is and give an example of how you would use it.'',
      q_type = ''technical'', q_difficulty = ''Easy'', expected_keywords = [''REST'', ''API''],
      evaluation_criteria = [], sample_answer = good_answer\<rparr>"

definition good_words :: "string list" where
  "good_words = [''rest'', ''is'', ''an'', ''api'', ''style.'', ''however'', ''it'',
        ''needs'', ''care.'', ''i'', ''test'', ''it.'']"

definition coaching_source :: question_source where
  "coaching_source =
     \<lparr>random_choice = (\<lambda>i types. types ! (i mod length types)),
      generate_single_question = (\<lambda>i domain question_type difficulty job_description.
         \<lparr>qd_question = ''Explain what REST API is and give an example of how you would use it.'',
          qd_keywords = [''REST'', ''API''], qd_criteria = [], qd_sample_answer = good_answer\<rparr>)\<rparr>"

definition coached_started :: manager where
  "coached_started =
     fst (start_interview_session coaching_source example_with_user 1 ''Software Engineering'' []
            (Some two_technical))"

definition coached_session :: session_state where
  "coached_session =
     \<lparr>session_id = 1, ss_user_id = 1, ss_domain = ''Software Engineering'',
      ss_questions = [coached_question 1, coached_question 2],
      current_question_index = 0, ss_answers = [], evaluations = [],
      ss_preferences = two_technical, status = ''active'', final_metrics = None\<rparr>"

section \<open>Reachable states\<close>

text \<open>
  The states of one manager over a database that starts empty: users are created,
  sessions are started, answered, looked up, paused, resumed and ended, with any
  arguments and any answers of the libraries and the question source. With \<open>lossy\<close>, the
  process may also restart: the dictionary of sessions is lost and the database stays.

  \<open>manager_ok\<close> is the invariant of these states. In the database, question ids are the
  row positions, questions belong to sessions that exist, answers refer to questions
  that exist, and no session has more answered questions than questions. A session the
  manager holds has the questions of its rows, stands at the number of its answered
  questions, and holds as many answers as evaluations, at most as many as its position.
  Without restarts, every session with question rows is held, and holds as many answers
  as its position.
\<close>

inductive reachable :: "bool \<Rightarrow> manager \<Rightarrow> bool" for lossy :: bool where
  reach_new: "reachable lossy (new_manager flag)"
| reach_user: "reachable lossy m \<Longrightarrow>
     reachable lossy (m\<lparr>db := fst (create_user (db m) name email domain level)\<rparr>)"
| reach_start: "reachable lossy m \<Longrightarrow>
     reachable lossy (fst (start_interview_session src m user_id domain job_description prefs))"
| reach_answer: "reachable lossy m \<Longrightarrow> reachable lossy (fst (process_answer e m sid answer))"
| reach_status: "reachable lossy m \<Longrightarrow> reachable lossy (fst (get_session_status m sid))"
| reach_pause: "reachable lossy m \<Longrightarrow> reachable lossy (fst (pause_session m sid))"
| reach_resume: "reachable lossy m \<Longrightarrow> reachable lossy (fst (resume_session m sid))"
| reach_end: "reachable lossy m \<Longrightarrow> reachable lossy (fst (end_session_early m sid))"
| reach_loss: "lossy \<Longrightarrow> reachable lossy m \<Longrightarrow>
     reachable lossy (m\<lparr>current_sessions := Map.empty, use_rouge_package := flag\<rparr>)"

definition db_ok :: "database \<Rightarrow> bool" where
  "db_ok d =
     ((\<forall>i < length (questions d). qrow_id (questions d ! i) = int i + 1)
      \<and> (\<forall>q \<in> set (questions d). qrow_session_id q \<le> int (length (sessions d)))
      \<and> (\<forall>a \<in> set (answers d). 1 \<le> arow_question_id a
                                  \<and> arow_question_id a \<le> int (length (questions d)))
      \<and> (\<forall>sid. length (answered_questions d sid) \<le> length (question_rows d sid)))"

definition session_ok :: "database \<Rightarrow> int \<Rightarrow> session_state \<Rightarrow> bool" where
  "session_ok d sid s =
     (map db_id (ss_questions s) = map (\<lambda>q. Some (qrow_id q)) (question_rows d sid)
      \<and> current_question_index s = length (answered_questions d sid)
      \<and> length (ss_answers s) = length (evaluations s)
      \<and> length (ss_answers s) \<le> current_question_index s)"

definition manager_ok :: "bool \<Rightarrow> manager \<Rightarrow> bool" where
  "manager_ok lossy m =
     (db_ok (db m)
      \<and> (\<forall>sid s. current_sessions m sid = Some s \<longrightarrow> session_ok (db m) sid s)
      \<and> (\<not> lossy \<longrightarrow>
           (\<forall>sid. question_rows (db m) sid \<noteq> [] \<longrightarrow> current_sessions m sid \<noteq> None)
           \<and> (\<forall>sid s. current_sessions m sid = Some s \<longrightarrow>
                  length (ss_answers s) = current_question_index s)))"

section \<open>Rounding\<close>

lemma py_round_err: "\<bar>of_int (py_round x) - x\<bar> \<le> 1/2"
  unfolding py_round_def Let_def by (auto; linarith)

lemma round3_err: "\<bar>round3 x - x\<bar> \<le> 1/2000"
proof -
  have "\<bar>of_int (py_round (x * 1000)) - x * 1000\<bar> \<le> 1/2" by (rule py_round_err)
  then show ?thesis unfolding round3_def by (simp add: field_simps abs_le_iff)
qed

lemma py_round_of_int: "py_round (of_int n) = n"
  by (simp add: py_round_def)

lemma py_round_mono_lower: "of_int n \<le> x \<Longrightarrow> n \<le> py_round x"
  unfolding py_round_def Let_def by (auto simp: le_floor_iff; linarith)

lemma py_round_mono_upper: "x \<le> of_int n \<Longrightarrow> py_round x \<le> n"
proof (cases "x = of_int n")
  case True then show ?thesis by (simp add: py_round_of_int)
next
  case False
  assume "x \<le> of_int n"
  with False have "x < of_int n" by simp
  then have "\<lfloor>x\<rfloor> < n" by (simp add: floor_less_iff)
  then show ?thesis unfolding py_round_def Let_def by auto
qed

lemma round3_unit:
  assumes "0 \<le> x" "x \<le> 1"
  shows "0 \<le> round3 x \<and> round3 x \<le> 1"
proof -
  have "of_int 0 \<le> x * 1000" using assms by simp
  then have a: "0 \<le> py_round (x * 1000)" by (rule py_round_mono_lower)
  have "x * 1000 \<le> of_int 1000" using assms by simp
  then have b: "py_round (x * 1000) \<le> 1000" by (rule py_round_mono_upper)
  have "(of_int (py_round (x * 1000)) :: real) \<le> of_int 1000"
    using b by (simp only: of_int_le_iff)
  with a show ?thesis unfolding round3_def by simp
qed

lemma round3_tenth: "round3 0.1 = 0.1"
  by (simp add: round3_def py_round_def)

lemma round3_zero: "round3 0 = 0"
  by (simp add: round3_def py_round_def)

lemma round3_one: "round3 1 = 1"
  by (simp add: round3_def py_round_def)


section \<open>Ranges of the component scores\<close>

lemma semantic_range:
  "0.2 \<le> evaluate_semantic_similarity e q a \<and> evaluate_semantic_similarity e q a \<le> 1"
proof -
  have c: "\<And>x::real. 0.2 \<le> max 0.2 (min 1.0 x) \<and> max 0.2 (min 1.0 x) \<le> 1" by simp
  show ?thesis
    unfolding evaluate_semantic_similarity_def Let_def
    using c by (simp only: split: option.split if_split) simp
qed

lemma keyword_range:
  "0 \<le> evaluate_keyword_coverage e q a \<and> evaluate_keyword_coverage e q a \<le> 1"
  by (simp add: evaluate_keyword_coverage_def Let_def divide_le_eq_1)

lemma foldl_indicators_lower:
  "s \<le> foldl (\<lambda>sc p. if P p then sc + (1/10 :: real) else sc) s ps"
proof (induction ps arbitrary: s)
  case Nil
  show ?case by simp
next
  case (Cons p ps)
  have "s \<le> (if P p then s + 1/10 else s)" by simp
  also have "\<dots> \<le> foldl (\<lambda>sc p. if P p then sc + (1/10 :: real) else sc) (if P p then s + 1/10 else s) ps"
    by (rule Cons.IH)
  finally show ?case by simp
qed

lemma structure_range:
  "0 \<le> evaluate_answer_structure e a \<and> evaluate_answer_structure e a \<le> 1"
proof -
  let ?s2 = "(if 3 \<le> length (sent_tokenize e a) \<and> length (sent_tokenize e a) \<le> 8 then 0.3
              else if 1 < length (sent_tokenize e a) then 0.2 else (0::real))
           + (if 30 \<le> length (filter isalnum (word_tokenize e a)) \<and> length (filter isalnum (word_tokenize e a)) \<le> 200 then 0.3
              else if 20 \<le> length (filter isalnum (word_tokenize e a)) \<and> length (filter isalnum (word_tokenize e a)) \<le> 300 then 0.2 else 0)"
  have "0 \<le> ?s2" by simp
  also have "?s2 \<le> foldl (\<lambda>sc p. if re_search e p a then sc + (1/10 :: real) else sc) ?s2 structure_indicators"
    by (rule foldl_indicators_lower)
  finally show ?thesis
    by (simp add: evaluate_answer_structure_def Let_def)
qed

lemma quality_range:
  "0 \<le> calculate_answer_quality_score e a \<and> calculate_answer_quality_score e a \<le> 1"
  by (simp add: calculate_answer_quality_score_def Let_def)

lemma f1_single:
  "f1_score (evaluate_answer_quality_metrics e [p] [0.8] 0.6) = (if 0.6 \<le> p then 1 else 0)"
  by (simp add: evaluate_answer_quality_metrics_def weighted_f1_score_def label_f1_def Let_def
      round3_zero round3_one)

lemma overlap_le:
  "length (filter (\<lambda>w. w \<in> set (remdups rs)) (remdups gs)) \<le> length (remdups rs)"
proof -
  have d: "distinct (filter (\<lambda>w. w \<in> set (remdups rs)) (remdups gs))" by simp
  have "set (filter (\<lambda>w. w \<in> set (remdups rs)) (remdups gs)) \<subseteq> set (remdups rs)" by auto
  then have "card (set (filter (\<lambda>w. w \<in> set (remdups rs)) (remdups gs))) \<le> card (set (remdups rs))"
    by (intro card_mono) auto
  then show ?thesis using d by (simp only: distinct_card distinct_remdups)
qed

lemma rouge_range:
  assumes "\<And>ref r1 r2 rl. rouge_scorer e ref a = Some (r1, r2, rl) \<Longrightarrow>
             0 \<le> r1 \<and> r1 \<le> 1 \<and> 0 \<le> rl \<and> rl \<le> 1"
  shows "0 \<le> rouge1 (fst (calculate_rouge_scores e flag a ref)) \<and>
         rouge1 (fst (calculate_rouge_scores e flag a ref)) \<le> 1 \<and>
         0 \<le> rougeL (fst (calculate_rouge_scores e flag a ref)) \<and>
         rougeL (fst (calculate_rouge_scores e flag a ref)) \<le> 1"
proof (cases "if flag then rouge_scorer e ref a else None")
  case (Some t)
  obtain r1 r2 rl where t: "t = (r1, r2, rl)" by (cases t) auto
  from Some t have "rouge_scorer e ref a = Some (r1, r2, rl)" by (simp split: if_splits)
  then have "0 \<le> r1 \<and> r1 \<le> 1 \<and> 0 \<le> rl \<and> rl \<le> 1" by (rule assms)
  then show ?thesis
    using Some t by (simp add: calculate_rouge_scores_def round3_unit)
next
  case None
  let ?rs = "remdups (split (lower ref))"
  let ?ov = "filter (\<lambda>w. w \<in> set ?rs) (remdups (split (lower a)))"
  show ?thesis
  proof (cases "?rs = []")
    case True
    then show ?thesis using None by (simp add: calculate_rouge_scores_def Let_def)
  next
    case False
    then have pos: "0 < real (length ?rs)" by simp
    have le: "real (length ?ov) \<le> real (length ?rs)" using overlap_le [of "split (lower ref)" "split (lower a)"] by simp
    define r where "r = real (length ?ov) / real (length ?rs)"
    have r01: "0 \<le> r \<and> r \<le> 1" unfolding r_def using pos le by (simp add: divide_le_eq_1)
    then have r9: "0 \<le> r * 0.9 \<and> r * 0.9 \<le> 1" by simp
    have "fst (calculate_rouge_scores e flag a ref) =
            \<lparr>rouge1 = round3 r, rouge2 = round3 (r * 0.8), rougeL = round3 (r * 0.9)\<rparr>"
      using None False unfolding calculate_rouge_scores_def Let_def r_def by simp
    then show ?thesis using round3_unit [of r] round3_unit [of "r * 0.9"] r01 r9 by simp
  qed
qed

lemma fold_max_range:
  "0 \<le> x \<Longrightarrow> x \<le> 1 \<Longrightarrow> list_all (\<lambda>y. 0 \<le> y \<and> y \<le> (1::real)) xs \<Longrightarrow>
   0 \<le> fold max xs x \<and> fold max xs x \<le> 1"
  by (induction xs arbitrary: x) auto

lemma py_max_range:
  "list_all (\<lambda>y. 0 \<le> y \<and> y \<le> (1::real)) xs \<Longrightarrow> 0 \<le> py_max xs \<and> py_max xs \<le> 1"
  by (cases xs) (auto simp: fold_max_range)

lemma bleu_precisions_range:
  "gs \<noteq> [] \<Longrightarrow> list_all (\<lambda>y. 0 \<le> y \<and> y \<le> (1::real)) (bleu_precisions gs refs)"
proof (induction refs)
  case Nil
  show ?case by (simp add: bleu_precisions_def)
next
  case (Cons r refs)
  have "real (length (filter (\<lambda>word. word \<in> set (split (lower r))) gs)) \<le> real (length gs)"
    by simp
  moreover have "0 < real (length gs)" using Cons.prems by simp
  ultimately have "real (length (filter (\<lambda>word. word \<in> set (split (lower r))) gs)) / real (length gs) \<le> 1"
    by (simp add: divide_le_eq_1)
  moreover have "list_all (\<lambda>y. 0 \<le> y \<and> y \<le> (1::real)) (bleu_precisions gs refs)"
    using Cons by simp
  ultimately show ?case by (simp add: bleu_precisions_def Let_def)
qed

lemma bleu_range:
  "0 \<le> calculate_bleu_score a refs \<and> calculate_bleu_score a refs \<le> 1"
  using py_max_range [OF bleu_precisions_range, of "split (lower a)" refs]
  by (simp add: calculate_bleu_score_def Let_def)

lemma composite_range:
  assumes "\<And>ref r1 r2 rl. rouge_scorer e ref a = Some (r1, r2, rl) \<Longrightarrow>
             0 \<le> r1 \<and> r1 \<le> 1 \<and> 0 \<le> rl \<and> rl \<le> 1"
  shows "0 \<le> composite_nlp_score (fst (calculate_advanced_nlp_metrics e flag q a)) \<and>
         composite_nlp_score (fst (calculate_advanced_nlp_metrics e flag q a)) \<le> 1"
proof -
  define refs0 where "refs0 =
            (if sample_answer q \<noteq> [] then [sample_answer q] else [])
          @ (if expected_keywords q \<noteq> [] \<or> evaluation_criteria q \<noteq> []
             then [''A good answer should include: ''
                     @ join '', '' (expected_keywords q @ evaluation_criteria q) @ ''.'']
             else [])"
  define refs where "refs = (if refs0 = [] then [q_question q] else refs0)"
  define pr where "pr = (case refs of [] \<Rightarrow> [] | r # rs \<Rightarrow> r)"
  define rg where "rg = fst (calculate_rouge_scores e flag a pr)"
  define b where "b = calculate_bleu_score a refs"
  define f where "f = f1_score (evaluate_answer_quality_metrics e [calculate_answer_quality_score e a] [0.8] 0.6)"
  define c where "c = rouge1 rg * 0.3 + rougeL rg * 0.3 + b * 0.25 + f * 0.15"
  have rgr: "0 \<le> rouge1 rg \<and> rouge1 rg \<le> 1 \<and> 0 \<le> rougeL rg \<and> rougeL rg \<le> 1"
    unfolding rg_def by (rule rouge_range) (rule assms)
  have br: "0 \<le> b \<and> b \<le> 1" unfolding b_def by (rule bleu_range)
  have fr: "0 \<le> f \<and> f \<le> 1"
    unfolding f_def using f1_single [of e "calculate_answer_quality_score e a"] by simp
  have cr: "0 \<le> c \<and> c \<le> 1" unfolding c_def using rgr br fr by simp
  have "composite_nlp_score (fst (calculate_advanced_nlp_metrics e flag q a)) = round3 c"
    unfolding calculate_advanced_nlp_metrics_def Let_def c_def f_def b_def rg_def pr_def refs_def refs0_def
    by (simp add: split_beta)
  then show ?thesis using round3_unit [of c] cr by simp
qed

lemma evaluate_answer_long:
  assumes "MIN_ANSWER_LENGTH \<le> length (strip a)"
  shows "fst (evaluate_answer e flag q a) =
     create_evaluation_result (evaluate_semantic_similarity e q a) (evaluate_keyword_coverage e q a)
       (evaluate_answer_structure e a)
       (evaluate_semantic_similarity e q a * 0.3 + evaluate_keyword_coverage e q a * 0.25
          + evaluate_answer_structure e a * 0.25
          + composite_nlp_score (fst (calculate_advanced_nlp_metrics e flag q a)) * 0.2)
       (generate_ai_feedback e q a)
       (Some (fst (calculate_advanced_nlp_metrics e flag q a)))"
  using assms by (simp add: evaluate_answer_def Let_def split_beta)

lemma create_evaluation_result_scores:
  "semantic_score (create_evaluation_result s k t ov fb nlp) = round3 s"
  "keyword_score (create_evaluation_result s k t ov fb nlp) = round3 k"
  "structure_score (create_evaluation_result s k t ov fb nlp) = round3 t"
  "overall_score (create_evaluation_result s k t ov fb nlp) = round3 ov"
  "feedback (create_evaluation_result s k t ov fb nlp) = fb"
  "nlp_metrics (create_evaluation_result s k t ov fb nlp) = nlp"
  by (simp_all add: create_evaluation_result_def split_beta)

lemma tolerance_arith:
  fixes s k t c rs rk rt ro :: real
  assumes "\<bar>rs - s\<bar> \<le> 1/2000" "\<bar>rk - k\<bar> \<le> 1/2000" "\<bar>rt - t\<bar> \<le> 1/2000"
    and "\<bar>ro - (s * 3 / 10 + k / 4 + t / 4 + c / 5)\<bar> \<le> 1/2000"
  shows "\<bar>ro - (3 * rs / 10 + rk / 4 + rt / 4 + c / 5)\<bar> \<le> 1/1000"
  using assms by arith

text \<open>
  Claim C1. For an answer whose trimmed length reaches the minimum, the evaluation carries
  NLP metrics, its semantic, keyword, structure and overall scores lie in \<open>[0, 1]\<close>, and
  the overall score differs from
  \<open>0.3 * semantic + 0.25 * keyword + 0.25 * structure + 0.2 * composite_nlp_score\<close>, taken on
  the reported (rounded) scores, by at most \<open>1/1000\<close>. The \<open>rouge_score\<close> package, when it
  answers, is taken to return F-measures in \<open>[0, 1]\<close>.
\<close>
theorem evaluate_answer_scores_in_range_and_weighted:
  assumes len: "MIN_ANSWER_LENGTH \<le> length (strip user_answer)"
    and pkg: "\<And>ref r1 r2 rl. rouge_scorer e ref user_answer = Some (r1, r2, rl) \<Longrightarrow>
             0 \<le> r1 \<and> r1 \<le> 1 \<and> 0 \<le> rl \<and> rl \<le> 1"
  shows "\<exists>ev nlp. ev = fst (evaluate_answer e flag question user_answer)
           \<and> nlp_metrics ev = Some nlp
           \<and> 0 \<le> semantic_score ev \<and> semantic_score ev \<le> 1
           \<and> 0 \<le> keyword_score ev \<and> keyword_score ev \<le> 1
           \<and> 0 \<le> structure_score ev \<and> structure_score ev \<le> 1
           \<and> 0 \<le> overall_score ev \<and> overall_score ev \<le> 1
           \<and> \<bar>overall_score ev - (0.3 * semantic_score ev + 0.25 * keyword_score ev
                  + 0.25 * structure_score ev + 0.2 * composite_nlp_score nlp)\<bar> \<le> 1/1000"
proof -
  define s where "s = evaluate_semantic_similarity e question user_answer"
  define k where "k = evaluate_keyword_coverage e question user_answer"
  define t where "t = evaluate_answer_structure e user_answer"
  define nlp where "nlp = fst (calculate_advanced_nlp_metrics e flag question user_answer)"
  define c where "c = composite_nlp_score nlp"
  define ov where "ov = s * 0.3 + k * 0.25 + t * 0.25 + c * 0.2"
  define ev where "ev = fst (evaluate_answer e flag question user_answer)"
  have ev: "ev = create_evaluation_result s k t ov (generate_ai_feedback e question user_answer) (Some nlp)"
    unfolding ev_def s_def k_def t_def ov_def c_def nlp_def by (rule evaluate_answer_long [OF len])
  have sr: "0 \<le> s \<and> s \<le> 1" unfolding s_def using semantic_range [of e question user_answer] by simp
  have kr: "0 \<le> k \<and> k \<le> 1" unfolding k_def by (rule keyword_range)
  have tr: "0 \<le> t \<and> t \<le> 1" unfolding t_def by (rule structure_range)
  have cr: "0 \<le> c \<and> c \<le> 1" unfolding c_def nlp_def by (rule composite_range) (rule pkg)
  have ovr: "0 \<le> ov \<and> ov \<le> 1" unfolding ov_def using sr kr tr cr by simp
  have es: "\<bar>round3 s - s\<bar> \<le> 1/2000" by (rule round3_err)
  have ek: "\<bar>round3 k - k\<bar> \<le> 1/2000" by (rule round3_err)
  have et: "\<bar>round3 t - t\<bar> \<le> 1/2000" by (rule round3_err)
  have eo: "\<bar>round3 ov - ov\<bar> \<le> 1/2000" by (rule round3_err)
  have tol: "\<bar>round3 ov - (0.3 * round3 s + 0.25 * round3 k + 0.25 * round3 t + 0.2 * c)\<bar> \<le> 1/1000"
    using tolerance_arith [OF es ek et, of "round3 ov" c] eo unfolding ov_def by simp
  show ?thesis
    apply (rule exI [of _ ev], rule exI [of _ nlp])
    using round3_unit [of s] round3_unit [of k] round3_unit [of t] round3_unit [of ov]
      sr kr tr ovr tol
    by (simp add: ev create_evaluation_result_scores ev_def [symmetric] c_def)
qed

text \<open>
  Claim C4. For an answer whose trimmed length is below \<open>MIN_ANSWER_LENGTH\<close>, the evaluation
  is one fixed record, whatever the question and the libraries: the four scores are
  \<open>0.1\<close>, the feedback is the short-answer message, there are no NLP metrics, and the
  flag of the metrics object is left as it was.
\<close>
theorem evaluate_answer_short_circuit:
  assumes "length (strip user_answer) < MIN_ANSWER_LENGTH"
  shows "fst (evaluate_answer e flag question user_answer)
           = create_evaluation_result 0.1 0.1 0.1 0.1 short_answer_feedback None
       \<and> semantic_score (fst (evaluate_answer e flag question user_answer)) = 0.1
       \<and> keyword_score (fst (evaluate_answer e flag question user_answer)) = 0.1
       \<and> structure_score (fst (evaluate_answer e flag question user_answer)) = 0.1
       \<and> overall_score (fst (evaluate_answer e flag question user_answer)) = 0.1
       \<and> feedback (fst (evaluate_answer e flag question user_answer))
           = ''Answer is too short. Please provide a more detailed response.''
       \<and> nlp_metrics (fst (evaluate_answer e flag question user_answer)) = None
       \<and> snd (evaluate_answer e flag question user_answer) = flag"
  using assms
  by (simp add: evaluate_answer_def create_evaluation_result_scores round3_tenth short_answer_feedback_def)

section \<open>Keyword coverage\<close>

lemma starts_with_iff: "starts_with sub t \<longleftrightarrow> (\<exists>ss. t = sub @ ss)"
  by (induction sub t rule: starts_with.induct) auto

lemma str_contains_iff: "str_contains sub t \<longleftrightarrow> (\<exists>ps ss. t = ps @ sub @ ss)"
proof (induction t)
  case Nil
  show ?case by auto
next
  case (Cons d ds)
  show ?case
  proof
    assume "str_contains sub (d # ds)"
    then consider "starts_with sub (d # ds)" | "str_contains sub ds" by auto
    then show "\<exists>ps ss. d # ds = ps @ sub @ ss"
    proof cases
      case 1
      then obtain ss where "d # ds = sub @ ss" by (auto simp: starts_with_iff)
      then have "d # ds = [] @ sub @ ss" by simp
      then show ?thesis by blast
    next
      case 2
      then obtain ps ss where "ds = ps @ sub @ ss" using Cons.IH by auto
      then have "d # ds = (d # ps) @ sub @ ss" by simp
      then show ?thesis by blast
    qed
  next
    assume "\<exists>ps ss. d # ds = ps @ sub @ ss"
    then obtain ps ss where eq: "d # ds = ps @ sub @ ss" by auto
    show "str_contains sub (d # ds)"
    proof (cases ps)
      case Nil
      then have "starts_with sub (d # ds)" using eq by (auto simp: starts_with_iff)
      then show ?thesis by simp
    next
      case (Cons p ps')
      then have "ds = ps' @ sub @ ss" using eq by simp
      then have "str_contains sub ds" using Cons.IH by blast
      then show ?thesis by simp
    qed
  qed
qed



lemma str_contains_refl: "str_contains w w"
  unfolding str_contains_iff by (rule exI [of _ "[]"], rule exI [of _ "[]"]) simp





section \<open>Session operations\<close>

lemma get_user_create_session:
  "get_user (fst (create_session d user_id domain)) uid = get_user d uid"
  by (simp add: get_user_def create_session_def Let_def)

text \<open>
  Claim C10. For a user id that is not in the users table, \<open>start_interview_session\<close>
  returns the error \<open>User not found\<close> and leaves the database with one more session row,
  the row it inserted before looking the user up.
\<close>
theorem start_unknown_user_leaves_session_row:
  assumes "get_user (db m) user_id = None"
  shows "start_interview_session src m user_id domain job_description session_preferences
           = (m\<lparr>db := (db m)\<lparr>sessions := sessions (db m)
                      @ [\<lparr>srow_id = int (length (sessions (db m))) + 1, srow_user_id = user_id,
                          srow_domain = domain\<rparr>]\<rparr>\<rparr>,
              StartError ''User not found'')
         \<and> length (sessions (db (fst (start_interview_session src m user_id domain job_description
                                        session_preferences))))
             = length (sessions (db m)) + 1"
proof -
  have "get_user (fst (create_session (db m) user_id domain)) user_id = None"
    using assms by (simp add: get_user_create_session)
  then show ?thesis
    by (simp add: start_interview_session_def create_session_def Let_def)
qed

lemma session_average_mean:
  "evs \<noteq> [] \<Longrightarrow>
   session_average (calculate_session_metrics evs) = round3 (np_mean (map overall_score evs))"
  by (simp add: calculate_session_metrics_def Let_def)

lemma end_session_early_held:
  assumes "current_sessions m sid = Some s"
  shows "(evaluations s = [] \<longrightarrow>
            end_session_early m sid
              = (m\<lparr>current_sessions := (current_sessions m)(sid \<mapsto> s\<lparr>status := ''cancelled''\<rparr>)\<rparr>,
                 SessionCancelled ''Session cancelled with no answers recorded.''))
       \<and> (evaluations s \<noteq> [] \<longrightarrow>
            (\<exists>avg msg. end_session_early m sid
              = (m\<lparr>current_sessions := (current_sessions m)(sid \<mapsto> s\<lparr>status := ''ended_early''\<rparr>)\<rparr>,
                 SessionEndedEarly \<lparr>questions_answered = length (evaluations s),
                                    ps_total_questions = length (ss_questions s),
                                    average_score = avg\<rparr> msg)
              \<and> \<bar>avg - sum_list (map overall_score (evaluations s)) / real (length (evaluations s))\<bar>
                  \<le> 1/2000))"
proof (cases "evaluations s = []")
  case True
  then show ?thesis using assms by (simp add: end_session_early_def)
next
  case False
  have "\<bar>round3 (np_mean (map overall_score (evaluations s)))
          - sum_list (map overall_score (evaluations s)) / real (length (evaluations s))\<bar> \<le> 1/2000"
    using round3_err [of "np_mean (map overall_score (evaluations s))"] by (simp add: np_mean_def)
  then show ?thesis
    using assms False by (simp add: end_session_early_def Let_def session_average_mean)
qed

lemma end_session_early_not_held:
  "current_sessions m sid = None \<Longrightarrow> end_session_early m sid = (m, EndError ''Session not found'')"
  by (simp add: end_session_early_def)

text \<open>
  Claim C7, amended. \<open>end_session_early\<close> looks only at the sessions the manager holds. For
  a session it does not hold, also one that \<open>get_session_status\<close> could restore, it
  returns \<open>Session not found\<close> and changes nothing. For a session it holds, it goes by
  the evaluations held with it: with none, the status becomes \<open>cancelled\<close> and there is no
  summary; with at least one, the status becomes \<open>ended_early\<close> and the summary gives
  the number of held evaluations, the number of questions and an average within
  \<open>1/2000\<close> of the mean of the held overall scores.
\<close>
theorem end_session_early_on_held_sessions:
  "(current_sessions m sid = None \<longrightarrow>
      end_session_early m sid = (m, EndError ''Session not found''))
   \<and> (\<forall>s. current_sessions m sid = Some s \<longrightarrow>
         (evaluations s = [] \<longrightarrow>
            end_session_early m sid
              = (m\<lparr>current_sessions := (current_sessions m)(sid \<mapsto> s\<lparr>status := ''cancelled''\<rparr>)\<rparr>,
                 SessionCancelled ''Session cancelled with no answers recorded.''))
       \<and> (evaluations s \<noteq> [] \<longrightarrow>
            (\<exists>avg msg. end_session_early m sid
              = (m\<lparr>current_sessions := (current_sessions m)(sid \<mapsto> s\<lparr>status := ''ended_early''\<rparr>)\<rparr>,
                 SessionEndedEarly \<lparr>questions_answered = length (evaluations s),
                                    ps_total_questions = length (ss_questions s),
                                    average_score = avg\<rparr> msg)
              \<and> \<bar>avg - sum_list (map overall_score (evaluations s)) / real (length (evaluations s))\<bar>
                  \<le> 1/2000)))"
  using end_session_early_held end_session_early_not_held by blast

lemma process_answer_continues:
  assumes "current_sessions m sid = Some s"
    and "current_question_index s + 1 < length (ss_questions s)"
    and "db_id (ss_questions s ! current_question_index s) = Some question_id"
  shows "\<exists>m' r ev. process_answer e m sid answer = (m', QuestionAnswered r)
           \<and> ev = fst (evaluate_answer e (use_rouge_package m)
                          (ss_questions s ! current_question_index s) answer)
           \<and> qa_evaluation r = ev
           \<and> qa_next_question r = ss_questions s ! (current_question_index s + 1)
           \<and> prog_current (qa_progress r) = current_question_index s + 1
           \<and> prog_total (qa_progress r) = length (ss_questions s)
           \<and> prog_percentage (qa_progress r)
               = real (current_question_index s + 1) / real (length (ss_questions s)) * 100
           \<and> qa_followup_question r
               = (if overall_score ev < 0.5
                  then Some (''Could you elaborate more on your answer to: '' @ [CHR 0x27]
                               @ q_question (ss_questions s ! current_question_index s)
                               @ [CHR 0x27] @ ''?'')
                  else None)"
  using assms
  by (simp add: process_answer_def Let_def split_beta generate_followup_question_def)

text \<open>
  Claim C5, amended. When the question just answered is not the last one,
  \<open>process_answer\<close> returns the evaluation, the next question and the progress (position,
  total, and their ratio as a percentage); the follow-up question is the request to
  elaborate exactly when the overall score is below \<open>0.5\<close>, and absent otherwise, also
  above \<open>0.8\<close>.
\<close>
theorem process_answer_next_question_and_followup:
  assumes "current_sessions m sid = Some s"
    and "current_question_index s + 1 < length (ss_questions s)"
    and "db_id (ss_questions s ! current_question_index s) = Some question_id"
  shows "\<exists>m' r ev. process_answer e m sid answer = (m', QuestionAnswered r)
           \<and> ev = fst (evaluate_answer e (use_rouge_package m)
                          (ss_questions s ! current_question_index s) answer)
           \<and> qa_evaluation r = ev
           \<and> qa_next_question r = ss_questions s ! (current_question_index s + 1)
           \<and> prog_current (qa_progress r) = current_question_index s + 1
           \<and> prog_total (qa_progress r) = length (ss_questions s)
           \<and> prog_percentage (qa_progress r)
               = real (current_question_index s + 1) / real (length (ss_questions s)) * 100
           \<and> qa_followup_question r
               = (if overall_score ev < 0.5
                  then Some (''Could you elaborate more on your answer to: '' @ [CHR 0x27]
                               @ q_question (ss_questions s ! current_question_index s)
                               @ [CHR 0x27] @ ''?'')
                  else None)"
  using assms by (rule process_answer_continues)

lemma start_zero_questions:
  assumes "get_user (db m) user_id = Some user"
    and "num_questions prefs = Some 0"
    and "question_types prefs = Some types"
  shows "\<exists>m' r s. start_interview_session src m user_id domain job_description (Some prefs)
                     = (m', StartSuccess r)
           \<and> res_session_id r = int (length (sessions (db m))) + 1
           \<and> first_question r = None \<and> res_total_questions r = 0
           \<and> current_sessions m' (res_session_id r) = Some s
           \<and> ss_questions s = [] \<and> current_question_index s = 0 \<and> status s = ''active''"
proof -
  have "get_user (fst (create_session (db m) user_id domain)) user_id = Some user"
    using assms(1) by (simp add: get_user_create_session)
  then show ?thesis
    using assms(2,3)
    by (simp add: start_interview_session_def create_session_def Let_def generate_questions_def)
qed

lemma start_missing_key:
  assumes "get_user (db m) user_id = Some user"
    and "num_questions prefs = None \<or> question_types prefs = None"
  shows "start_interview_session src m user_id domain job_description (Some prefs)
           = (m\<lparr>db := fst (create_session (db m) user_id domain)\<rparr>, StartRaised KeyError)"
proof -
  have "get_user (fst (create_session (db m) user_id domain)) user_id = Some user"
    using assms(1) by (simp add: get_user_create_session)
  then show ?thesis
    using assms(2)
    by (auto simp: start_interview_session_def create_session_def Let_def split: option.splits)
qed

text \<open>
  Claim C9, amended. For an existing user and preferences that hold both keys and ask for
  zero questions, \<open>start_interview_session\<close> returns a session: it reports no first
  question and a total of zero, and holds a session with an empty question list whose
  status is \<open>active\<close>.
\<close>
theorem start_with_zero_questions_is_active_and_empty:
  assumes "get_user (db m) user_id = Some user"
    and "num_questions prefs = Some 0"
    and "question_types prefs = Some types"
  shows "\<exists>m' r s. start_interview_session src m user_id domain job_description (Some prefs)
                     = (m', StartSuccess r)
           \<and> res_session_id r = int (length (sessions (db m))) + 1
           \<and> first_question r = None \<and> res_total_questions r = 0
           \<and> current_sessions m' (res_session_id r) = Some s
           \<and> ss_questions s = [] \<and> current_question_index s = 0 \<and> status s = ''active''"
  using assms by (rule start_zero_questions)

section \<open>The example session\<close>

lemma upt2: "[0..<2] = [0, Suc 0]"
  by (simp add: upt_rec)

lemma example_with_user_eq:
  "example_with_user =
     \<lparr>db = \<lparr>users = [\<lparr>urow_id = 1, urow_name = ''Ada'', urow_email = ''ada@example.org'',
                       urow_domain = ''Software Engineering'',
                       urow_experience_level = ''Beginner''\<rparr>],
            sessions = [], questions = [], answers = []\<rparr>,
      current_sessions = Map.empty, use_rouge_package = False\<rparr>"
  by (simp add: example_with_user_def new_manager_def create_user_def empty_database_def)

lemma example_generated:
  "generate_questions template_source ''Software Engineering'' ''Beginner'' [] 2
       (Some [''technical''])
     = Inr [example_question 1\<lparr>db_id := None\<rparr>, example_question 2\<lparr>db_id := None\<rparr>]"
  by (simp add: generate_questions_def template_source_def get_difficulty_level_def
      example_question_def Let_def upt2)

lemma example_started_eq:
  "example_started =
     \<lparr>db = example_database, current_sessions = [1 \<mapsto> example_session],
      use_rouge_package = False\<rparr>"
  unfolding example_started_def start_interview_session_def
  by (simp add: example_with_user_eq create_session_def get_user_def example_generated
      two_technical_def save_question_def example_question_def example_question_row_def
      example_session_def example_database_def Let_def)

lemma short_result_eq:
  "create_evaluation_result 0.1 0.1 0.1 0.1 short_answer_feedback None = short_evaluation"
  by (simp add: create_evaluation_result_def round3_tenth short_answer_feedback_def
      identify_strengths_def identify_improvements_def short_evaluation_def)

lemma yes_is_short: "length (strip ''yes'') < MIN_ANSWER_LENGTH"
  by (simp add: strip_def isspace_chr_def MIN_ANSWER_LENGTH_def)

lemma evaluate_yes: "evaluate_answer e flag q ''yes'' = (short_evaluation, flag)"
  using yes_is_short by (simp add: evaluate_answer_def short_result_eq)

lemma example_answered_eq:
  "example_answered =
     \<lparr>db = example_database\<lparr>answers := [example_answer_row]\<rparr>,
      current_sessions = [1 \<mapsto> example_answered_session], use_rouge_package = False\<rparr>"
  unfolding example_answered_def process_answer_def
  by (simp add: example_started_eq example_session_def example_question_def evaluate_yes
      save_answer_def example_database_def short_evaluation_def example_answered_session_def
      example_answer_row_def Let_def)

theorem evaluate_answer_short_circuit_witness:
  "length (strip ''yes'') < MIN_ANSWER_LENGTH
   \<and> overall_score (fst (evaluate_answer offline_env False rest_question ''yes'')) = 0.1
   \<and> nlp_metrics (fst (evaluate_answer offline_env False rest_question ''yes'')) = None"
proof -
  have h: "length (strip ''yes'') < MIN_ANSWER_LENGTH"
    by (simp add: strip_def isspace_chr_def MIN_ANSWER_LENGTH_def)
  from evaluate_answer_short_circuit
         [where e = offline_env and flag = False and question = rest_question, OF h]
  have "overall_score (fst (evaluate_answer offline_env False rest_question ''yes'')) = 0.1"
    and "nlp_metrics (fst (evaluate_answer offline_env False rest_question ''yes'')) = None"
    by blast+
  then show ?thesis using h by blast
qed

theorem evaluate_answer_scores_witness:
  "MIN_ANSWER_LENGTH \<le> length (strip ''I used a REST API to fetch data'')
   \<and> (\<exists>ev nlp. ev = fst (evaluate_answer offline_env False rest_question
                           ''I used a REST API to fetch data'')
         \<and> nlp_metrics ev = Some nlp
         \<and> 0 \<le> semantic_score ev \<and> semantic_score ev \<le> 1
         \<and> 0 \<le> keyword_score ev \<and> keyword_score ev \<le> 1
         \<and> 0 \<le> structure_score ev \<and> structure_score ev \<le> 1
         \<and> 0 \<le> overall_score ev \<and> overall_score ev \<le> 1
         \<and> \<bar>overall_score ev - (0.3 * semantic_score ev + 0.25 * keyword_score ev
                + 0.25 * structure_score ev + 0.2 * composite_nlp_score nlp)\<bar> \<le> 1/1000)"
proof (rule conjI)
  show h1: "MIN_ANSWER_LENGTH \<le> length (strip ''I used a REST API to fetch data'')"
    by (simp add: strip_def isspace_chr_def MIN_ANSWER_LENGTH_def)
  have h2: "\<And>ref r1 r2 rl.
      rouge_scorer offline_env ref ''I used a REST API to fetch data'' = Some (r1, r2, rl) \<Longrightarrow>
      0 \<le> r1 \<and> r1 \<le> 1 \<and> 0 \<le> rl \<and> rl \<le> 1"
    by (simp add: offline_env_def)
  show "\<exists>ev nlp. ev = fst (evaluate_answer offline_env False rest_question
                           ''I used a REST API to fetch data'')
         \<and> nlp_metrics ev = Some nlp
         \<and> 0 \<le> semantic_score ev \<and> semantic_score ev \<le> 1
         \<and> 0 \<le> keyword_score ev \<and> keyword_score ev \<le> 1
         \<and> 0 \<le> structure_score ev \<and> structure_score ev \<le> 1
         \<and> 0 \<le> overall_score ev \<and> overall_score ev \<le> 1
         \<and> \<bar>overall_score ev - (0.3 * semantic_score ev + 0.25 * keyword_score ev
                + 0.25 * structure_score ev + 0.2 * composite_nlp_score nlp)\<bar> \<le> 1/1000"
    by (rule evaluate_answer_scores_in_range_and_weighted
         [where e = offline_env and flag = False and question = rest_question, OF h1 h2])
qed

theorem start_unknown_user_witness:
  "get_user (db (new_manager False)) 7 = None
   \<and> snd (start_interview_session template_source (new_manager False) 7 ''Design'' [] None)
       = StartError ''User not found''
   \<and> length (sessions (db (fst (start_interview_session template_source (new_manager False) 7
                                   ''Design'' [] None)))) = 1"
proof -
  have h: "get_user (db (new_manager False)) 7 = None"
    by (simp add: get_user_def new_manager_def empty_database_def)
  show ?thesis
    using h start_unknown_user_leaves_session_row
      [where src = template_source and domain = "''Design''" and job_description = "[]"
         and session_preferences = None, OF h]
    by (simp add: new_manager_def empty_database_def)
qed

theorem end_session_early_witness:
  "current_sessions example_started 1 = Some example_session
   \<and> evaluations example_session = []
   \<and> snd (end_session_early example_started 1)
       = SessionCancelled ''Session cancelled with no answers recorded.''
   \<and> current_sessions example_answered 1 = Some example_answered_session
   \<and> evaluations example_answered_session \<noteq> []
   \<and> (\<exists>avg msg. snd (end_session_early example_answered 1)
         = SessionEndedEarly \<lparr>questions_answered = 1, ps_total_questions = 2,
                               average_score = avg\<rparr> msg
         \<and> \<bar>avg - 1/10\<bar> \<le> 1/2000)"
proof -
  have h1: "current_sessions example_started 1 = Some example_session"
    by (simp add: example_started_eq)
  have e1: "evaluations example_session = []" by (simp add: example_session_def)
  have h2: "current_sessions example_answered 1 = Some example_answered_session"
    by (simp add: example_answered_eq)
  have e2: "evaluations example_answered_session = [short_evaluation]"
    by (simp add: example_answered_session_def)
  have q2: "length (ss_questions example_answered_session) = 2"
    by (simp add: example_answered_session_def example_session_def)
  have a: "snd (end_session_early example_started 1)
       = SessionCancelled ''Session cancelled with no answers recorded.''"
    using end_session_early_on_held_sessions [of example_started 1] h1 e1 by simp
  have b: "\<exists>avg msg. snd (end_session_early example_answered 1)
         = SessionEndedEarly \<lparr>questions_answered = 1, ps_total_questions = 2,
                               average_score = avg\<rparr> msg
         \<and> \<bar>avg - 1/10\<bar> \<le> 1/2000"
    using end_session_early_on_held_sessions [of example_answered 1] h2 e2 q2
    by (auto simp: short_evaluation_def)
  show ?thesis using h1 e1 h2 e2 a b by simp
qed

lemma example_user_found:
  "get_user (db example_with_user) 1
     = Some \<lparr>urow_id = 1, urow_name = ''Ada'', urow_email = ''ada@example.org'',
             urow_domain = ''Software Engineering'', urow_experience_level = ''Beginner''\<rparr>"
  by (simp add: example_with_user_eq get_user_def)

lemma zero_questions_num: "num_questions zero_questions = Some 0"
  by (simp add: zero_questions_def)

lemma zero_questions_types:
  "question_types zero_questions = Some [''technical'', ''behavioral'']"
  by (simp add: zero_questions_def)

theorem start_with_zero_questions_counterexample:
  "\<exists>m' r s. start_interview_session template_source example_with_user 1 ''Software Engineering'' []
               (Some zero_questions) = (m', StartSuccess r)
     \<and> current_sessions m' (res_session_id r) = Some s
     \<and> ss_questions s = [] \<and> status s = ''active'' \<and> status s \<noteq> ''completed''"
proof -
  from start_zero_questions [OF example_user_found zero_questions_num zero_questions_types]
  obtain m' r s where
    "start_interview_session template_source example_with_user 1 ''Software Engineering'' []
       (Some zero_questions) = (m', StartSuccess r)"
    "current_sessions m' (res_session_id r) = Some s" "ss_questions s = []" "status s = ''active''"
    by metis
  moreover from this have "status s \<noteq> ''completed''" by simp
  ultimately show ?thesis by metis
qed

text \<open>
  Claim C6 at a session that was cancelled: \<open>pause_session\<close> answers with success and
  sets the status to \<open>paused\<close>, after which \<open>resume_session\<close> makes the session
  \<open>active\<close> again and hands out its first question.
\<close>
theorem pause_session_revives_cancelled_session:
  "(\<exists>s. current_sessions example_cancelled 1 = Some s \<and> status s = ''cancelled'')
   \<and> snd (pause_session example_cancelled 1) = PauseSuccess ''Session paused''
   \<and> (\<exists>s. current_sessions (fst (pause_session example_cancelled 1)) 1 = Some s
          \<and> status s = ''paused'')
   \<and> (\<exists>q. snd (resume_session (fst (pause_session example_cancelled 1)) 1) = ResumeSuccess q 0 2)
   \<and> (\<exists>s. current_sessions (fst (resume_session (fst (pause_session example_cancelled 1)) 1)) 1
             = Some s \<and> status s = ''active'')"
proof -
  have c: "example_cancelled =
     \<lparr>db = example_database, current_sessions = [1 \<mapsto> example_session\<lparr>status := ''cancelled''\<rparr>],
      use_rouge_package = False\<rparr>"
    by (simp add: example_cancelled_def end_session_early_def example_started_eq example_session_def)
  show ?thesis
    by (simp add: c pause_session_def resume_session_def example_session_def)
qed

theorem start_with_zero_questions_witness:
  "get_user (db example_with_user) 1
     = Some \<lparr>urow_id = 1, urow_name = ''Ada'', urow_email = ''ada@example.org'',
             urow_domain = ''Software Engineering'', urow_experience_level = ''Beginner''\<rparr>
   \<and> num_questions zero_questions = Some 0
   \<and> question_types zero_questions = Some [''technical'', ''behavioral'']
   \<and> (\<exists>m' r s. start_interview_session template_source example_with_user 1 ''Design'' []
                   (Some zero_questions) = (m', StartSuccess r)
           \<and> res_session_id r = int (length (sessions (db example_with_user))) + 1
           \<and> first_question r = None \<and> res_total_questions r = 0
           \<and> current_sessions m' (res_session_id r) = Some s
           \<and> ss_questions s = [] \<and> current_question_index s = 0 \<and> status s = ''active'')"
  by (intro conjI example_user_found zero_questions_num zero_questions_types
      start_with_zero_questions_is_active_and_empty
        [OF example_user_found zero_questions_num zero_questions_types])

section \<open>Restoring a session\<close>

lemma filter_key_length:
  "distinct (map f xs) \<Longrightarrow>
   length (filter (\<lambda>q. f q = x \<and> P q) xs) = (if x \<in> f ` {q \<in> set xs. P q} then 1 else 0)"
proof (induction xs)
  case Nil
  show ?case by simp
next
  case (Cons y ys)
  then have IH: "length (filter (\<lambda>q. f q = x \<and> P q) ys) = (if x \<in> f ` {q \<in> set ys. P q} then 1 else 0)"
    and fresh: "f y \<notin> f ` set ys" by simp_all
  show ?case
  proof (cases "f y = x \<and> P y")
    case True
    then have "x \<notin> f ` {q \<in> set ys. P q}" using fresh by auto
    then show ?thesis using True IH by auto
  next
    case False
    then have "(x \<in> f ` {q \<in> set (y # ys). P q}) = (x \<in> f ` {q \<in> set ys. P q})" by auto
    then show ?thesis using False IH by auto
  qed
qed

lemma question_rows_ids:
  "qrow_id ` set (question_rows d sid) = qrow_id ` {q \<in> set (questions d). qrow_session_id q = sid}"
  by (simp add: question_rows_def)

lemma length_answered_questions:
  assumes "distinct (map qrow_id (questions d))"
  shows "length (answered_questions d sid)
           = length (filter (\<lambda>a. arow_question_id a \<in> qrow_id ` set (question_rows d sid)) (answers d))"
proof -
  have one: "length (filter (\<lambda>q. qrow_id q = x \<and> qrow_session_id q = sid) (questions d))
               = (if x \<in> qrow_id ` set (question_rows d sid) then 1 else 0)" for x
    using filter_key_length [OF assms, of x "\<lambda>q. qrow_session_id q = sid"]
    by (simp add: question_rows_ids)
  have "length (concat (map (\<lambda>a. map qrow_id
                         (filter (\<lambda>q. qrow_id q = arow_question_id a \<and> qrow_session_id q = sid)
                            (questions d))) as))
          = length (filter (\<lambda>a. arow_question_id a \<in> qrow_id ` set (question_rows d sid)) as)" for as
    by (induction as) (simp_all add: one)
  then show ?thesis by (simp add: answered_questions_def)
qed

lemma restore_some:
  assumes "session_with_user d sid = Some (srow, u)" and "question_rows d sid \<noteq> []"
  shows "\<exists>s. restore_session_from_db d sid = Some s
           \<and> current_question_index s = length (answered_questions d sid)
           \<and> length (ss_questions s) = length (question_rows d sid)
           \<and> status s = (if length (answered_questions d sid) < length (question_rows d sid)
                          then ''active'' else ''completed'')
           \<and> ss_answers s = [] \<and> evaluations s = [] \<and> session_id s = sid"
  using assms by (simp add: restore_session_from_db_def Let_def)

lemma restore_none:
  assumes "session_with_user d sid = None \<or> question_rows d sid = []"
  shows "restore_session_from_db d sid = None"
  using assms by (auto simp: restore_session_from_db_def Let_def split: option.splits)

text \<open>
  Claim C3. For a session that the manager no longer holds: when its row (joined with its
  user) and its question rows are found, and the answers table holds one answer for each
  of the first \<open>K\<close> of its \<open>Q\<close> questions, \<open>get_session_status\<close> returns a restored
  session at position \<open>K\<close> whose status is \<open>active\<close> if \<open>K < Q\<close> and \<open>completed\<close>
  otherwise; when the session row or the question rows are not found, it returns \<open>None\<close>
  and changes nothing.
\<close>
theorem restore_reports_position_or_absence:
  assumes "current_sessions m sid = None"
  shows "(\<forall>srow u K.
            session_with_user (db m) sid = Some (srow, u)
            \<and> question_rows (db m) sid \<noteq> []
            \<and> distinct (map qrow_id (questions (db m)))
            \<and> K \<le> length (question_rows (db m) sid)
            \<and> map arow_question_id
                 (filter (\<lambda>a. arow_question_id a \<in> qrow_id ` set (question_rows (db m) sid))
                    (answers (db m)))
               = take K (map qrow_id (question_rows (db m) sid))
            \<longrightarrow> (\<exists>s. get_session_status m sid
                        = (m\<lparr>current_sessions := (current_sessions m)(sid \<mapsto> s)\<rparr>, Some s)
                     \<and> current_question_index s = K
                     \<and> length (ss_questions s) = length (question_rows (db m) sid)
                     \<and> status s = (if K < length (question_rows (db m) sid)
                                    then ''active'' else ''completed'')))
       \<and> (session_with_user (db m) sid = None \<or> question_rows (db m) sid = []
            \<longrightarrow> get_session_status m sid = (m, None))"
proof (intro conjI allI impI)
  fix srow u K
  assume a: "session_with_user (db m) sid = Some (srow, u)
            \<and> question_rows (db m) sid \<noteq> []
            \<and> distinct (map qrow_id (questions (db m)))
            \<and> K \<le> length (question_rows (db m) sid)
            \<and> map arow_question_id
                 (filter (\<lambda>a. arow_question_id a \<in> qrow_id ` set (question_rows (db m) sid))
                    (answers (db m)))
               = take K (map qrow_id (question_rows (db m) sid))"
  then have e: "map arow_question_id
                 (filter (\<lambda>a. arow_question_id a \<in> qrow_id ` set (question_rows (db m) sid))
                    (answers (db m)))
               = take K (map qrow_id (question_rows (db m) sid))"
    and kq: "K \<le> length (question_rows (db m) sid)" by blast+
  have "length (filter (\<lambda>a. arow_question_id a \<in> qrow_id ` set (question_rows (db m) sid))
                    (answers (db m)))
          = length (map arow_question_id
                 (filter (\<lambda>a. arow_question_id a \<in> qrow_id ` set (question_rows (db m) sid))
                    (answers (db m))))" by simp
  also have "\<dots> = length (take K (map qrow_id (question_rows (db m) sid)))"
    by (simp only: e)
  also have "\<dots> = K" using kq by simp
  finally have "length (filter (\<lambda>a. arow_question_id a \<in> qrow_id ` set (question_rows (db m) sid))
                    (answers (db m))) = K" .
  then have k: "length (answered_questions (db m) sid) = K"
    using a by (simp add: length_answered_questions)
  from a obtain s where s: "restore_session_from_db (db m) sid = Some s"
      "current_question_index s = length (answered_questions (db m) sid)"
      "length (ss_questions s) = length (question_rows (db m) sid)"
      "status s = (if length (answered_questions (db m) sid) < length (question_rows (db m) sid)
                          then ''active'' else ''completed'')"
    using restore_some [of "db m" sid srow u] by blast
  have "get_session_status m sid = (m\<lparr>current_sessions := (current_sessions m)(sid \<mapsto> s)\<rparr>, Some s)"
    using assms s(1) by (simp add: get_session_status_def)
  then show "\<exists>s. get_session_status m sid
                        = (m\<lparr>current_sessions := (current_sessions m)(sid \<mapsto> s)\<rparr>, Some s)
                     \<and> current_question_index s = K
                     \<and> length (ss_questions s) = length (question_rows (db m) sid)
                     \<and> status s = (if K < length (question_rows (db m) sid)
                                    then ''active'' else ''completed'')"
    using s k by auto
next
  assume "session_with_user (db m) sid = None \<or> question_rows (db m) sid = []"
  then have "restore_session_from_db (db m) sid = None" by (rule restore_none)
  then show "get_session_status m sid = (m, None)"
    using assms by (simp add: get_session_status_def)
qed

lemma example_restarted_eq:
  "example_restarted =
     \<lparr>db = example_database\<lparr>answers := [example_answer_row]\<rparr>,
      current_sessions = Map.empty, use_rouge_package = False\<rparr>"
  by (simp add: example_restarted_def example_answered_eq)

theorem restore_reports_position_witness:
  "current_sessions example_restarted 1 = None
   \<and> current_sessions example_restarted 5 = None
   \<and> question_rows (db example_restarted) 1 = [example_question_row 1, example_question_row 2]
   \<and> map arow_question_id (answers (db example_restarted)) = [1]
   \<and> (\<exists>s. get_session_status example_restarted 1
              = (example_restarted\<lparr>current_sessions := (current_sessions example_restarted)(1 \<mapsto> s)\<rparr>,
                 Some s)
          \<and> current_question_index s = 1 \<and> length (ss_questions s) = 2 \<and> status s = ''active'')
   \<and> session_with_user (db example_restarted) 5 = None
   \<and> get_session_status example_restarted 5 = (example_restarted, None)"
proof -
  have h1: "current_sessions example_restarted 1 = None" by (simp add: example_restarted_eq)
  have h5: "current_sessions example_restarted 5 = None" by (simp add: example_restarted_eq)
  have su: "session_with_user (db example_restarted) 1
              = Some (\<lparr>srow_id = 1, srow_user_id = 1, srow_domain = ''Software Engineering''\<rparr>,
                      \<lparr>urow_id = 1, urow_name = ''Ada'', urow_email = ''ada@example.org'',
                       urow_domain = ''Software Engineering'', urow_experience_level = ''Beginner''\<rparr>)"
    by (simp add: example_restarted_eq example_database_def session_with_user_def)
  have qr: "question_rows (db example_restarted) 1 = [example_question_row 1, example_question_row 2]"
    by (simp add: example_restarted_eq example_database_def question_rows_def example_question_row_def)
  have di: "distinct (map qrow_id (questions (db example_restarted)))"
    by (simp add: example_restarted_eq example_database_def example_question_row_def)
  have an: "map arow_question_id (answers (db example_restarted)) = [1]"
    by (simp add: example_restarted_eq example_database_def example_answer_row_def)
  have ta: "map arow_question_id
              (filter (\<lambda>a. arow_question_id a \<in> qrow_id ` set (question_rows (db example_restarted) 1))
                 (answers (db example_restarted)))
            = take 1 (map qrow_id (question_rows (db example_restarted) 1))"
    by (simp add: qr) (simp add: example_restarted_eq example_database_def example_answer_row_def
        example_question_row_def)
  have no: "session_with_user (db example_restarted) 5 = None"
    by (simp add: example_restarted_eq example_database_def session_with_user_def)
  have a: "\<exists>s. get_session_status example_restarted 1
              = (example_restarted\<lparr>current_sessions := (current_sessions example_restarted)(1 \<mapsto> s)\<rparr>,
                 Some s)
          \<and> current_question_index s = 1 \<and> length (ss_questions s) = 2 \<and> status s = ''active''"
    using restore_reports_position_or_absence [OF h1] su qr di ta
    by (auto simp del: take_Suc_Cons)
  have b: "get_session_status example_restarted 5 = (example_restarted, None)"
    using restore_reports_position_or_absence [OF h5] no by blast
  show ?thesis using h1 h5 qr an a no b by blast
qed

section \<open>Ending a restored session\<close>

lemma restore_example:
  "restore_session_from_db (example_database\<lparr>answers := [example_answer_row]\<rparr>) 1
     = Some restored_session"
  by (simp add: restore_session_from_db_def session_with_user_def question_rows_def
      answered_questions_def example_database_def example_question_row_def
      example_answer_row_def restored_session_def restored_question_def two_technical_def Let_def)

lemma example_restored_eq:
  "example_restored =
     \<lparr>db = example_database\<lparr>answers := [example_answer_row]\<rparr>,
      current_sessions = [1 \<mapsto> restored_session], use_rouge_package = False\<rparr>"
  by (simp add: example_restored_def get_session_status_def example_restarted_eq restore_example)

theorem end_session_early_restored_counterexample:
  "answers (db example_restarted) = [example_answer_row]
   \<and> arow_question_id example_answer_row = 1 \<and> arow_overall_score example_answer_row = 1/10
   \<and> current_sessions example_restarted 1 = None
   \<and> snd (end_session_early example_restarted 1) = EndError ''Session not found''
   \<and> snd (get_session_status example_restarted 1) = Some restored_session
   \<and> current_question_index restored_session = 1
   \<and> current_sessions example_restored 1 = Some restored_session
   \<and> answers (db example_restored) = [example_answer_row]
   \<and> snd (end_session_early example_restored 1)
       = SessionCancelled ''Session cancelled with no answers recorded.''"
proof -
  have a: "answers (db example_restarted) = [example_answer_row]"
    by (simp add: example_restarted_eq)
  have b: "arow_question_id example_answer_row = 1 \<and> arow_overall_score example_answer_row = 1/10"
    by (simp add: example_answer_row_def)
  have c: "current_sessions example_restarted 1 = None"
    by (simp add: example_restarted_eq)
  have d: "snd (end_session_early example_restarted 1) = EndError ''Session not found''"
    using c by (simp add: end_session_early_def)
  have e: "snd (get_session_status example_restarted 1) = Some restored_session"
    using c by (simp add: get_session_status_def) (simp add: example_restarted_eq restore_example)
  have f: "current_question_index restored_session = 1"
    by (simp add: restored_session_def)
  have g: "current_sessions example_restored 1 = Some restored_session"
    by (simp add: example_restored_eq)
  have h: "answers (db example_restored) = [example_answer_row]"
    by (simp add: example_restored_eq)
  have i: "snd (end_session_early example_restored 1)
       = SessionCancelled ''Session cancelled with no answers recorded.''"
    using g by (simp add: end_session_early_def restored_session_def)
  show ?thesis using a b c d e f g h i by blast
qed

section \<open>Keyword coverage on text beyond ASCII\<close>






lemma lower_chr_code:
  "(of_char c :: nat) < 128 \<Longrightarrow> (of_char (lower_chr c) :: nat) = to_lower (of_char c)"
proof (cases c)
  case (Char b0 b1 b2 b3 b4 b5 b6 b7)
  assume "(of_char c :: nat) < 128"
  then show ?thesis
    unfolding Char lower_chr_def to_lower_def
    by (cases b0; cases b1; cases b2; cases b3; cases b4; cases b5; cases b6; cases b7; simp)
qed

lemma lower_unicode_from_ascii:
  "isascii s \<Longrightarrow>
   lower_unicode_from before (map of_char s) = map (\<lambda>c. of_char (lower_chr c)) s"
proof (induction s arbitrary: before)
  case Nil
  show ?case by simp
next
  case (Cons c cs)
  then have c: "(of_char c :: nat) < 128" and cs: "isascii cs" by (simp_all add: isascii_def)
  then have "(of_char c :: nat) \<noteq> 931" by simp
  then show ?case using Cons.IH [OF cs] lower_chr_code [OF c] by simp
qed

lemma lower_unicode_ascii:
  "isascii s \<Longrightarrow> lower_unicode (map of_char s) = map of_char (lower s)"
  by (simp add: lower_unicode_def lower_def lower_unicode_from_ascii)

lemma isascii_append: "isascii (a @ b) = (isascii a \<and> isascii b)"
  by (simp add: isascii_def)



section \<open>A well-received answer gets no follow-up\<close>

lemma good_split:
  "split good_answer = [''REST'', ''is'', ''an'', ''API'', ''style.'', ''However'', ''it'',
      ''needs'', ''care.'', ''I'', ''test'', ''it.'']"
  by (simp add: good_answer_def split_def isspace_chr_def)

lemma good_lower:
  "lower good_answer = ''rest is an api style. however it needs care. i test it.''"
  by (simp add: good_answer_def lower_def lower_chr_def)

lemma good_lower_split:
  "split ''rest is an api style. however it needs care. i test it.''
     = [''rest'', ''is'', ''an'', ''api'', ''style.'', ''however'', ''it'',
        ''needs'', ''care.'', ''i'', ''test'', ''it.'']"
  by (simp add: split_def isspace_chr_def)

lemma good_sentences:
  "sentences_from [] good_answer = [''REST is an API style.'', ''However it needs care.'',
      ''I test it.'']"
  by (simp add: good_answer_def)

lemma good_alnum: "length (filter isalnum (split good_answer)) = 9"
  by (simp only: good_split) (simp add: isalnum_def isalnum_chr_def)

lemma hint_lower:
  "lower ''A good answer should include: REST, API.'' = ''a good answer should include: rest, api.''"
  by (simp add: lower_def lower_chr_def)

lemma hint_split:
  "split ''a good answer should include: rest, api.''
     = [''a'', ''good'', ''answer'', ''should'', ''include:'', ''rest,'', ''api.'']"
  by (simp add: split_def isspace_chr_def)

lemma good_is_long: "MIN_ANSWER_LENGTH \<le> length (strip good_answer)"
  by (simp add: good_answer_def strip_def isspace_chr_def MIN_ANSWER_LENGTH_def)

lemma good_semantic:
  "evaluate_semantic_similarity library_env (coached_question i) good_answer = 1"
  by (simp add: evaluate_semantic_similarity_def library_env_def Let_def)

lemma coverage_all_matched:
  assumes "expected_keywords q \<noteq> []"
    and "\<And>k. k \<in> set (expected_keywords q) \<Longrightarrow> str_contains (lower k) (lower a)"
  shows "evaluate_keyword_coverage e q a = 1"
proof -
  have "filter (keyword_matched (lower a) ws) (expected_keywords q) = expected_keywords q" for ws
    using assms(2) by (simp add: keyword_matched_def filter_id_conv)
  then show ?thesis
    using assms(1) by (simp add: evaluate_keyword_coverage_def Let_def)
qed

lemma good_contains_rest: "str_contains (lower ''REST'') (lower good_answer)"
  by (simp only: good_lower) (simp add: lower_def lower_chr_def)

lemma good_contains_api: "str_contains (lower ''API'') (lower good_answer)"
  by (simp only: good_lower) (simp add: lower_def lower_chr_def)

lemma good_keyword:
  "evaluate_keyword_coverage library_env (coached_question i) good_answer = 1"
proof (rule coverage_all_matched)
  show "expected_keywords (coached_question i) \<noteq> []" by (simp add: coached_question_def)
next
  fix k
  assume "k \<in> set (expected_keywords (coached_question i))"
  then have "k = ''REST'' \<or> k = ''API''" by (simp add: coached_question_def)
  then show "str_contains (lower k) (lower good_answer)"
    using good_contains_rest good_contains_api by blast
qed

lemma good_however: "''however'' \<in> set (split (lower good_answer))"
  by (simp only: good_lower good_lower_split) simp

lemma good_markers:
  "map (\<lambda>p. re_search library_env p good_answer) structure_indicators = [False, True, False, False]"
  by (simp add: library_env_def good_however structure_indicators_def)

lemma foldl_markers:
  "foldl (\<lambda>sc p. if re_search library_env p good_answer then sc + 1/10 else sc) s0
     structure_indicators = s0 + (1/10 :: real)"
proof -
  have "foldl (\<lambda>sc p. if re_search library_env p good_answer then sc + 1/10 else sc) s0 ps
        = foldl (\<lambda>sc b. if b then sc + 1/10 else sc) s0
            (map (\<lambda>p. re_search library_env p good_answer) ps)" for ps
    by (induction ps arbitrary: s0) simp_all
  then show ?thesis by (simp only: good_markers) simp
qed

lemma good_structure:
  "evaluate_answer_structure library_env good_answer = 0.4"
proof -
  have s: "sent_tokenize library_env good_answer
             = [''REST is an API style.'', ''However it needs care.'', ''I test it.'']"
    by (simp add: library_env_def good_sentences)
  have w: "length (filter isalnum (word_tokenize library_env good_answer)) = 9"
    by (simp add: library_env_def good_alnum)
  show ?thesis
    unfolding evaluate_answer_structure_def Let_def
    by (simp only: s w) (simp add: foldl_markers)
qed

lemma good_words_split: "split (lower good_answer) = good_words"
  by (simp only: good_lower good_lower_split good_words_def)

lemma good_words_distinct: "remdups good_words = good_words"
  by (simp add: good_words_def)

lemma good_words_length: "length good_words = 12"
  by (simp add: good_words_def)

lemma filter_self: "filter (\<lambda>w. w \<in> set xs) xs = xs"
  by (simp add: filter_id_conv)

lemma good_connecting:
  "list_ex (\<lambda>word. str_contains word (lower good_answer))
     [''however'', ''therefore'', ''moreover'', ''furthermore'', ''additionally'']"
  by (simp only: good_lower) simp

lemma good_quality:
  "calculate_answer_quality_score library_env good_answer = 0.7"
proof -
  have s: "length (sent_tokenize library_env good_answer) = 3"
    by (simp add: library_env_def good_sentences)
  have w: "length (split good_answer) = 12" by (simp add: good_split)
  have u: "length (remdups (split (lower good_answer))) = 12"
    by (simp only: good_words_split good_words_distinct good_words_length)
  show ?thesis
    unfolding calculate_answer_quality_score_def Let_def
    using good_connecting by (simp only: s w u) simp
qed

lemma good_rouge:
  "calculate_rouge_scores library_env flag good_answer good_answer
     = (\<lparr>rouge1 = 1, rouge2 = 0.8, rougeL = 0.9\<rparr>, False)"
proof -
  have n: "rouge_scorer library_env good_answer good_answer = None"
    by (simp add: library_env_def)
  have ne: "good_words \<noteq> []" by (simp add: good_words_def)
  have r: "round3 1 = 1 \<and> round3 0.8 = 0.8 \<and> round3 0.9 = 0.9"
    by (simp add: round3_def py_round_def)
  show ?thesis
    unfolding calculate_rouge_scores_def Let_def
    using ne r
    by (simp only: n good_words_split good_words_distinct filter_self good_words_length) simp
qed

lemma good_bleu:
  "calculate_bleu_score good_answer
     [good_answer, ''A good answer should include: REST, API.''] = 1"
proof -
  have ne: "good_words \<noteq> []" by (simp add: good_words_def)
  have hn: "split (lower ''A good answer should include: REST, API.'') \<noteq> []"
    by (simp add: hint_lower hint_split)
  have h: "filter (\<lambda>word. word \<in> set (split (lower ''A good answer should include: REST, API.'')))
             good_words = []"
    by (simp add: hint_lower hint_split good_words_def)
  have "bleu_precisions good_words [good_answer, ''A good answer should include: REST, API.'']
          = [1, 0]"
    unfolding bleu_precisions_def Let_def
    using ne hn by (simp add: good_words_split h filter_self good_words_length)
  then show ?thesis
    unfolding calculate_bleu_score_def Let_def
    using ne by (simp add: good_words_split)
qed

lemma good_nonempty: "good_answer \<noteq> []"
  by (simp add: good_answer_def)

lemma good_hint:
  "''A good answer should include: '' @ join '', '' ([''REST'', ''API''] @ []) @ ''.''
     = ''A good answer should include: REST, API.''"
  by simp

lemma good_f1:
  "f1_score (evaluate_answer_quality_metrics library_env
               [calculate_answer_quality_score library_env good_answer] [0.8] 0.6) = 1"
  using f1_single [of library_env "calculate_answer_quality_score library_env good_answer"]
  by (simp add: good_quality)

lemma good_composite:
  "composite_nlp_score (fst (calculate_advanced_nlp_metrics library_env flag (coached_question i)
                               good_answer)) = 0.97"
proof -
  have q: "sample_answer (coached_question i) = good_answer"
      "expected_keywords (coached_question i) = [''REST'', ''API'']"
      "evaluation_criteria (coached_question i) = []"
    by (simp_all add: coached_question_def)
  have r: "round3 0.97 = 0.97" by (simp add: round3_def py_round_def)
  have "composite_nlp_score (fst (calculate_advanced_nlp_metrics library_env flag (coached_question i)
                               good_answer))
          = round3 (1 * 0.3 + 0.9 * 0.3 + 1 * 0.25 + 1 * 0.15)"
    unfolding calculate_advanced_nlp_metrics_def Let_def
    using good_nonempty good_f1
    by (simp add: q good_hint good_rouge good_bleu split_beta)
  then show ?thesis using r by simp
qed

lemma good_overall:
  "overall_score (fst (evaluate_answer library_env flag (coached_question i) good_answer)) = 0.844"
proof -
  have r: "round3 0.844 = 0.844" by (simp add: round3_def py_round_def)
  show ?thesis
    using r
    by (simp add: evaluate_answer_long [OF good_is_long] create_evaluation_result_scores
        good_semantic good_keyword good_structure good_composite)
qed

lemma coached_generated:
  "generate_questions coaching_source ''Software Engineering'' ''Beginner'' [] 2
       (Some [''technical''])
     = Inr [coached_question 1\<lparr>db_id := None\<rparr>, coached_question 2\<lparr>db_id := None\<rparr>]"
  by (simp add: generate_questions_def coaching_source_def get_difficulty_level_def
      coached_question_def Let_def upt2)

lemma coached_started_session:
  "current_sessions coached_started 1 = Some coached_session
   \<and> use_rouge_package coached_started = False"
  unfolding coached_started_def start_interview_session_def
  by (simp add: example_with_user_eq create_session_def get_user_def coached_generated
      two_technical_def save_question_def coached_question_def coached_session_def Let_def)

theorem process_answer_high_score_counterexample:
  "\<exists>m' r. process_answer library_env coached_started 1 good_answer = (m', QuestionAnswered r)
     \<and> overall_score (qa_evaluation r) = 0.844
     \<and> 0.8 < overall_score (qa_evaluation r)
     \<and> qa_followup_question r = None"
proof -
  have h1: "current_sessions coached_started 1 = Some coached_session"
    by (simp add: coached_started_session)
  have h2: "current_question_index coached_session + 1 < length (ss_questions coached_session)"
    by (simp add: coached_session_def)
  have h3: "db_id (ss_questions coached_session ! current_question_index coached_session) = Some 1"
    by (simp add: coached_session_def coached_question_def)
  have q: "ss_questions coached_session ! current_question_index coached_session
             = coached_question 1"
    by (simp add: coached_session_def)
  from process_answer_continues [OF h1 h2 h3, of library_env good_answer]
  obtain m' r where
    p: "process_answer library_env coached_started 1 good_answer = (m', QuestionAnswered r)"
    and ev: "qa_evaluation r = fst (evaluate_answer library_env (use_rouge_package coached_started)
                          (ss_questions coached_session ! current_question_index coached_session)
                          good_answer)"
    and fu: "qa_followup_question r
               = (if overall_score (fst (evaluate_answer library_env (use_rouge_package coached_started)
                          (ss_questions coached_session ! current_question_index coached_session)
                          good_answer)) < 0.5
                  then Some (''Could you elaborate more on your answer to: '' @ [CHR 0x27]
                               @ q_question (ss_questions coached_session
                                               ! current_question_index coached_session)
                               @ [CHR 0x27] @ ''?'')
                  else None)"
    by blast
  have o: "overall_score (qa_evaluation r) = 0.844"
    by (simp only: ev q good_overall)
  have f: "qa_followup_question r = None"
    using fu o ev by simp
  show ?thesis using p o f by simp
qed

theorem process_answer_followup_witness:
  "current_sessions example_started 1 = Some example_session
   \<and> current_question_index example_session + 1 < length (ss_questions example_session)
   \<and> db_id (ss_questions example_session ! current_question_index example_session) = Some 1
   \<and> (\<exists>m' r. process_answer offline_env example_started 1 ''yes'' = (m', QuestionAnswered r)
          \<and> overall_score (qa_evaluation r) = 1/10
          \<and> qa_next_question r = example_question 2
          \<and> prog_current (qa_progress r) = 1 \<and> prog_total (qa_progress r) = 2
          \<and> prog_percentage (qa_progress r) = 50
          \<and> qa_followup_question r
              = Some (''Could you elaborate more on your answer to: '' @ [CHR 0x27]
                        @ ''Describe the difference between frontend and backend development.''
                        @ [CHR 0x27] @ ''?''))"
proof -
  have h1: "current_sessions example_started 1 = Some example_session"
    by (simp add: example_started_eq)
  have h2: "current_question_index example_session + 1 < length (ss_questions example_session)"
    by (simp add: example_session_def)
  have h3: "db_id (ss_questions example_session ! current_question_index example_session) = Some 1"
    by (simp add: example_session_def example_question_def)
  from process_answer_next_question_and_followup [OF h1 h2 h3, of offline_env "''yes''"]
  obtain m' r ev where
    p: "process_answer offline_env example_started 1 ''yes'' = (m', QuestionAnswered r)"
    and ev: "ev = fst (evaluate_answer offline_env (use_rouge_package example_started)
                          (ss_questions example_session ! current_question_index example_session)
                          ''yes'')"
    and r: "qa_evaluation r = ev"
      "qa_next_question r = ss_questions example_session ! (current_question_index example_session + 1)"
      "prog_current (qa_progress r) = current_question_index example_session + 1"
      "prog_total (qa_progress r) = length (ss_questions example_session)"
      "prog_percentage (qa_progress r)
         = real (current_question_index example_session + 1)
             / real (length (ss_questions example_session)) * 100"
      "qa_followup_question r
               = (if overall_score ev < 0.5
                  then Some (''Could you elaborate more on your answer to: '' @ [CHR 0x27]
                               @ q_question (ss_questions example_session
                                               ! current_question_index example_session)
                               @ [CHR 0x27] @ ''?'')
                  else None)"
    by blast
  have e: "ev = short_evaluation" using ev by (simp add: evaluate_yes)
  have a: "overall_score (qa_evaluation r) = 1/10"
    using r(1) e by (simp add: short_evaluation_def)
  have b: "qa_next_question r = example_question 2"
    using r(2) by (simp add: example_session_def)
  have c: "prog_current (qa_progress r) = 1 \<and> prog_total (qa_progress r) = 2
           \<and> prog_percentage (qa_progress r) = 50"
    using r(3,4,5) by (simp add: example_session_def)
  have d: "qa_followup_question r
              = Some (''Could you elaborate more on your answer to: '' @ [CHR 0x27]
                        @ ''Describe the difference between frontend and backend development.''
                        @ [CHR 0x27] @ ''?'')"
    using r(6) e by (simp add: short_evaluation_def example_session_def example_question_def)
  show ?thesis using h1 h2 h3 p a b c d by simp
qed

section \<open>The invariant of the reachable states\<close>

lemma db_ok_ids:
  assumes "db_ok d" "q \<in> set (questions d)"
  shows "1 \<le> qrow_id q \<and> qrow_id q \<le> int (length (questions d))"
proof -
  from assms(2) obtain i where "i < length (questions d)" "questions d ! i = q"
    by (auto simp: in_set_conv_nth)
  then show ?thesis using assms(1) by (auto simp: db_ok_def)
qed

lemma db_ok_distinct:
  assumes "db_ok d"
  shows "distinct (map qrow_id (questions d))"
proof -
  have "\<forall>i < length (questions d). \<forall>j < length (questions d).
          i \<noteq> j \<longrightarrow> qrow_id (questions d ! i) \<noteq> qrow_id (questions d ! j)"
    using assms by (auto simp: db_ok_def)
  then show ?thesis by (simp add: distinct_conv_nth)
qed

lemma same_tables:
  assumes "questions d' = questions d" "answers d' = answers d"
  shows "question_rows d' sid = question_rows d sid"
    and "answered_questions d' sid = answered_questions d sid"
  using assms by (simp_all add: question_rows_def answered_questions_def)

lemma session_ok_same_tables:
  assumes "questions d' = questions d" "answers d' = answers d"
  shows "session_ok d' sid s = session_ok d sid s"
  using same_tables [OF assms] by (simp add: session_ok_def)

lemma db_ok_same_tables:
  assumes "db_ok d" "questions d' = questions d" "answers d' = answers d"
    "length (sessions d) \<le> length (sessions d')"
  shows "db_ok d'"
  using assms same_tables [OF assms(2,3)]
  by (auto simp: db_ok_def)

lemma save_question_eq:
  "save_question d sid t ty dl kw
     = (d\<lparr>questions := questions d
            @ [\<lparr>qrow_id = int (length (questions d)) + 1, qrow_session_id = sid,
                qrow_question_text = t, qrow_question_type = ty,
                qrow_difficulty_level = dl, qrow_expected_keywords = kw\<rparr>]\<rparr>,
        int (length (questions d)) + 1)"
  by (simp add: save_question_def Let_def)

lemma save_questions_rows:
  "\<exists>rows. fst (save_questions d sid qs) = d\<lparr>questions := questions d @ rows\<rparr>
     \<and> length rows = length qs
     \<and> (\<forall>k < length rows. qrow_id (rows ! k) = int (length (questions d) + k) + 1
                            \<and> qrow_session_id (rows ! k) = sid)
     \<and> map db_id (snd (save_questions d sid qs)) = map (\<lambda>r. Some (qrow_id r)) rows"
proof (induction qs arbitrary: d)
  case Nil
  show ?case by (rule exI [of _ "[]"]) simp
next
  case (Cons q qs)
  define r0 where "r0 = \<lparr>qrow_id = int (length (questions d)) + 1, qrow_session_id = sid,
                qrow_question_text = q_question q, qrow_question_type = q_type q,
                qrow_difficulty_level = q_difficulty q,
                qrow_expected_keywords = expected_keywords q\<rparr>"
  define d1 where "d1 = d\<lparr>questions := questions d @ [r0]\<rparr>"
  from Cons.IH [of d1] obtain rows where
    a: "fst (save_questions d1 sid qs) = d1\<lparr>questions := questions d1 @ rows\<rparr>"
    and b: "length rows = length qs"
    and c: "\<forall>k < length rows. qrow_id (rows ! k) = int (length (questions d1) + k) + 1
                            \<and> qrow_session_id (rows ! k) = sid"
    and e: "map db_id (snd (save_questions d1 sid qs)) = map (\<lambda>r. Some (qrow_id r)) rows"
    by blast
  have step: "save_questions d sid (q # qs)
                = (fst (save_questions d1 sid qs),
                   q\<lparr>db_id := Some (qrow_id r0)\<rparr> # snd (save_questions d1 sid qs))"
    by (simp add: save_question_eq d1_def r0_def split_beta Let_def)
  have "fst (save_questions d sid (q # qs)) = d\<lparr>questions := questions d @ (r0 # rows)\<rparr>"
    using a by (simp add: step d1_def del: save_questions.simps)
  moreover have "length (r0 # rows) = length (q # qs)" using b by simp
  moreover have "\<forall>k < length (r0 # rows).
                   qrow_id ((r0 # rows) ! k) = int (length (questions d) + k) + 1
                   \<and> qrow_session_id ((r0 # rows) ! k) = sid"
  proof (intro allI impI)
    fix k assume k: "k < length (r0 # rows)"
    show "qrow_id ((r0 # rows) ! k) = int (length (questions d) + k) + 1
          \<and> qrow_session_id ((r0 # rows) ! k) = sid"
    proof (cases k)
      case 0
      then show ?thesis by (simp add: r0_def)
    next
      case (Suc j)
      then have "j < length rows" using k by simp
      then show ?thesis using c Suc by (simp add: d1_def)
    qed
  qed
  moreover have "map db_id (snd (save_questions d sid (q # qs)))
                   = map (\<lambda>r. Some (qrow_id r)) (r0 # rows)"
    using e by (simp add: step del: save_questions.simps)
  ultimately show ?case by blast
qed

lemma answered_append_answer:
  "answered_questions (d\<lparr>answers := answers d @ [a]\<rparr>) sid
     = answered_questions d sid
       @ map qrow_id (filter (\<lambda>q. qrow_id q = arow_question_id a \<and> qrow_session_id q = sid)
                        (questions d))"
  by (simp add: answered_questions_def)

lemma question_rows_append:
  "question_rows (d\<lparr>questions := questions d @ rows\<rparr>) sid
     = question_rows d sid @ filter (\<lambda>q. qrow_session_id q = sid) rows"
  by (simp add: question_rows_def)

lemma answered_append_questions:
  assumes "\<forall>a \<in> set (answers d). arow_question_id a \<le> int (length (questions d))"
    and "\<forall>r \<in> set rows. int (length (questions d)) < qrow_id r"
  shows "answered_questions (d\<lparr>questions := questions d @ rows\<rparr>) sid = answered_questions d sid"
proof -
  have none: "filter (\<lambda>q. qrow_id q = arow_question_id a \<and> qrow_session_id q = sid) rows = []"
    if "a \<in> set (answers d)" for a
    using assms that by (fastforce simp: filter_empty_conv)
  have "answered_questions (d\<lparr>questions := questions d @ rows\<rparr>) sid
          = concat (map (\<lambda>a. map qrow_id
                         (filter (\<lambda>q. qrow_id q = arow_question_id a \<and> qrow_session_id q = sid)
                            (questions d))
                       @ map qrow_id
                         (filter (\<lambda>q. qrow_id q = arow_question_id a \<and> qrow_session_id q = sid)
                            rows)) (answers d))"
    by (simp add: answered_questions_def)
  also have "\<dots> = concat (map (\<lambda>a. map qrow_id
                         (filter (\<lambda>q. qrow_id q = arow_question_id a \<and> qrow_session_id q = sid)
                            (questions d))) (answers d))"
    by (rule arg_cong [where f = concat], rule map_cong [OF refl]) (simp add: none)
  also have "\<dots> = answered_questions d sid"
    by (simp add: answered_questions_def)
  finally show ?thesis .
qed

lemma manager_ok_new: "manager_ok lossy (new_manager flag)"
  by (simp add: manager_ok_def new_manager_def empty_database_def db_ok_def question_rows_def
      answered_questions_def)

lemma manager_ok_flag:
  "manager_ok lossy (m\<lparr>use_rouge_package := flag\<rparr>) = manager_ok lossy m"
  by (simp add: manager_ok_def)

lemma manager_ok_update:
  assumes "manager_ok lossy m"
    and "session_ok (db m) sid s'"
    and "\<not> lossy \<Longrightarrow> length (ss_answers s') = current_question_index s'"
  shows "manager_ok lossy (m\<lparr>current_sessions := (current_sessions m)(sid \<mapsto> s')\<rparr>)"
  using assms by (auto simp: manager_ok_def)

lemma manager_ok_same_tables:
  assumes "manager_ok lossy m"
    and "questions d' = questions (db m)" and "answers d' = answers (db m)"
    and "length (sessions (db m)) \<le> length (sessions d')"
  shows "manager_ok lossy (m\<lparr>db := d'\<rparr>)"
proof -
  have "db_ok d'" using assms by (auto simp: manager_ok_def intro: db_ok_same_tables)
  moreover have "session_ok d' sid s = session_ok (db m) sid s" for sid s
    using assms(2,3) by (rule session_ok_same_tables)
  moreover have "question_rows d' sid = question_rows (db m) sid" for sid
    using assms(2,3) by (rule same_tables)
  ultimately show ?thesis using assms(1) by (simp add: manager_ok_def)
qed

lemma manager_ok_loss:
  assumes "manager_ok True m"
  shows "manager_ok True (m\<lparr>current_sessions := Map.empty, use_rouge_package := flag\<rparr>)"
  using assms by (simp add: manager_ok_def)

lemma manager_ok_create_user:
  assumes "manager_ok lossy m"
  shows "manager_ok lossy (m\<lparr>db := fst (create_user (db m) name email domain level)\<rparr>)"
  by (rule manager_ok_same_tables [OF assms]) (simp_all add: create_user_def Let_def)

lemma session_ok_status:
  "session_ok d sid (s\<lparr>status := x\<rparr>) = session_ok d sid s"
  by (simp add: session_ok_def)

lemma manager_ok_held:
  assumes "manager_ok lossy m" "current_sessions m sid = Some s"
  shows "session_ok (db m) sid s"
    and "\<not> lossy \<Longrightarrow> length (ss_answers s) = current_question_index s"
  using assms by (auto simp: manager_ok_def)

lemma manager_ok_pause:
  assumes "manager_ok lossy m"
  shows "manager_ok lossy (fst (pause_session m sid))"
proof (cases "current_sessions m sid")
  case None
  then show ?thesis using assms by (simp add: pause_session_def)
next
  case (Some s)
  have "manager_ok lossy (m\<lparr>current_sessions := (current_sessions m)(sid \<mapsto> s\<lparr>status := ''paused''\<rparr>)\<rparr>)"
    using manager_ok_held [OF assms Some]
    by (intro manager_ok_update [OF assms]) (simp_all add: session_ok_status)
  then show ?thesis using Some by (simp add: pause_session_def)
qed

lemma manager_ok_resume:
  assumes "manager_ok lossy m"
  shows "manager_ok lossy (fst (resume_session m sid))"
proof (cases "current_sessions m sid")
  case None
  then show ?thesis using assms by (simp add: resume_session_def)
next
  case (Some s)
  have "manager_ok lossy (m\<lparr>current_sessions := (current_sessions m)(sid \<mapsto> s\<lparr>status := ''active''\<rparr>)\<rparr>)"
    using manager_ok_held [OF assms Some]
    by (intro manager_ok_update [OF assms]) (simp_all add: session_ok_status)
  then show ?thesis using Some assms by (simp add: resume_session_def Let_def)
qed

lemma manager_ok_end:
  assumes "manager_ok lossy m"
  shows "manager_ok lossy (fst (end_session_early m sid))"
proof (cases "current_sessions m sid")
  case None
  then show ?thesis using assms by (simp add: end_session_early_def)
next
  case (Some s)
  have "manager_ok lossy (m\<lparr>current_sessions := (current_sessions m)(sid \<mapsto> s\<lparr>status := x\<rparr>)\<rparr>)" for x
    using manager_ok_held [OF assms Some]
    by (intro manager_ok_update [OF assms]) (simp_all add: session_ok_status)
  then show ?thesis using Some by (simp add: end_session_early_def Let_def)
qed

lemma restore_session_ok:
  assumes "restore_session_from_db d sid = Some s"
  shows "session_ok d sid s \<and> question_rows d sid \<noteq> [] \<and> ss_answers s = []"
  using assms
  by (auto simp: restore_session_from_db_def session_ok_def Let_def comp_def
      split: option.splits if_splits)

lemma manager_ok_status:
  assumes "manager_ok lossy m"
  shows "manager_ok lossy (fst (get_session_status m sid))"
proof (cases "current_sessions m sid")
  case (Some s)
  then show ?thesis using assms by (simp add: get_session_status_def)
next
  case None
  show ?thesis
  proof (cases "restore_session_from_db (db m) sid")
    case None
    then show ?thesis using assms \<open>current_sessions m sid = None\<close>
      by (simp add: get_session_status_def)
  next
    case (Some s)
    from restore_session_ok [OF Some]
    have ok: "session_ok (db m) sid s" and rows: "question_rows (db m) sid \<noteq> []" by simp_all
    have lossy: lossy
    proof (rule ccontr)
      assume "\<not> lossy"
      then have "current_sessions m sid \<noteq> None" using assms rows by (simp add: manager_ok_def)
      then show False using \<open>current_sessions m sid = None\<close> by simp
    qed
    have "manager_ok lossy (m\<lparr>current_sessions := (current_sessions m)(sid \<mapsto> s)\<rparr>)"
      using lossy by (intro manager_ok_update [OF assms ok]) simp
    then show ?thesis using Some \<open>current_sessions m sid = None\<close>
      by (simp add: get_session_status_def)
  qed
qed

lemma answer_saved:
  assumes "db_ok d" "r \<in> set (questions d)" "arow_question_id a = qrow_id r"
  shows "length (answered_questions (d\<lparr>answers := answers d @ [a]\<rparr>) sid)
           = length (answered_questions d sid) + (if qrow_session_id r = sid then 1 else 0)"
proof -
  have dist: "distinct (map qrow_id (questions d))" using assms(1) by (rule db_ok_distinct)
  have inj: "inj_on qrow_id (set (questions d))" using dist by (simp add: distinct_map)
  have iff: "(qrow_id r \<in> qrow_id ` {q \<in> set (questions d). qrow_session_id q = sid})
               = (qrow_session_id r = sid)"
  proof
    assume "qrow_id r \<in> qrow_id ` {q \<in> set (questions d). qrow_session_id q = sid}"
    then obtain q where q: "q \<in> set (questions d)" "qrow_session_id q = sid" "qrow_id q = qrow_id r"
      by auto
    then have "q = r" using inj assms(2) by (auto dest: inj_onD)
    then show "qrow_session_id r = sid" using q by simp
  next
    assume "qrow_session_id r = sid"
    then show "qrow_id r \<in> qrow_id ` {q \<in> set (questions d). qrow_session_id q = sid}"
      using assms(2) by auto
  qed
  have "length (filter (\<lambda>q. qrow_id q = qrow_id r \<and> qrow_session_id q = sid) (questions d))
          = (if qrow_session_id r = sid then 1 else 0)"
    using filter_key_length [OF dist, of "qrow_id r" "\<lambda>q. qrow_session_id q = sid"] iff by simp
  then show ?thesis by (simp add: answered_append_answer assms(3))
qed

lemma db_ok_answer_saved:
  assumes "db_ok d" "r \<in> set (questions d)" "arow_question_id a = qrow_id r"
    and "length (answered_questions d (qrow_session_id r))
           < length (question_rows d (qrow_session_id r))"
  shows "db_ok (d\<lparr>answers := answers d @ [a]\<rparr>)"
proof -
  let ?d = "d\<lparr>answers := answers d @ [a]\<rparr>"
  have rows: "question_rows ?d sid = question_rows d sid" for sid
    by (simp add: question_rows_def)
  have w4: "length (answered_questions ?d sid) \<le> length (question_rows ?d sid)" for sid
    using answer_saved [OF assms(1,2,3), of sid] assms(1,4)
    by (auto simp: rows db_ok_def)
  have ids: "1 \<le> qrow_id r \<and> qrow_id r \<le> int (length (questions d))"
    using assms(1,2) by (rule db_ok_ids)
  show ?thesis
    unfolding db_ok_def
  proof (intro conjI)
    show "\<forall>i<length (questions ?d). qrow_id (questions ?d ! i) = int i + 1"
      using assms(1) by (simp add: db_ok_def)
    show "\<forall>q\<in>set (questions ?d). qrow_session_id q \<le> int (length (sessions ?d))"
      using assms(1) by (simp add: db_ok_def)
    show "\<forall>a\<in>set (answers ?d). 1 \<le> arow_question_id a
            \<and> arow_question_id a \<le> int (length (questions ?d))"
      using assms(1,3) ids by (auto simp: db_ok_def)
    show "\<forall>sid. length (answered_questions ?d sid) \<le> length (question_rows ?d sid)"
      using w4 by blast
  qed
qed

lemma session_ok_question:
  assumes "session_ok d sid s" "current_question_index s < length (ss_questions s)"
    and "db_id (ss_questions s ! current_question_index s) = Some question_id"
  shows "\<exists>r. r \<in> set (questions d) \<and> qrow_session_id r = sid \<and> qrow_id r = question_id"
    and "length (answered_questions d sid) < length (question_rows d sid)"
proof -
  have m: "map db_id (ss_questions s) = map (\<lambda>q. Some (qrow_id q)) (question_rows d sid)"
    and c: "current_question_index s = length (answered_questions d sid)"
    using assms(1) by (simp_all add: session_ok_def)
  have len: "length (ss_questions s) = length (question_rows d sid)"
    using m by (metis length_map)
  show "length (answered_questions d sid) < length (question_rows d sid)"
    using assms(2) c len by simp
  let ?r = "question_rows d sid ! current_question_index s"
  have i: "current_question_index s < length (question_rows d sid)" using assms(2) len by simp
  have "map db_id (ss_questions s) ! current_question_index s
          = map (\<lambda>q. Some (qrow_id q)) (question_rows d sid) ! current_question_index s"
    using m by simp
  then have "db_id (ss_questions s ! current_question_index s) = Some (qrow_id ?r)"
    using assms(2) i by simp
  then have "qrow_id ?r = question_id" using assms(3) by simp
  moreover have "?r \<in> set (question_rows d sid)" using i by simp
  then have "?r \<in> set (questions d) \<and> qrow_session_id ?r = sid"
    by (simp add: question_rows_def)
  ultimately show "\<exists>r. r \<in> set (questions d) \<and> qrow_session_id r = sid \<and> qrow_id r = question_id"
    by blast
qed

lemma manager_ok_answer_saved:
  assumes ok: "manager_ok lossy m"
    and held: "current_sessions m sid = Some s"
    and c: "current_question_index s < length (ss_questions s)"
    and q: "db_id (ss_questions s ! current_question_index s) = Some question_id"
    and a: "arow_question_id a = question_id"
  shows "manager_ok lossy
           (m\<lparr>db := (db m)\<lparr>answers := answers (db m) @ [a]\<rparr>, use_rouge_package := flag,
              current_sessions := (current_sessions m)
                (sid \<mapsto> s\<lparr>ss_answers := ss_answers s @ [x], evaluations := evaluations s @ [ev],
                          current_question_index := current_question_index s + 1\<rparr>)\<rparr>)"
proof -
  let ?d = "db m"
  let ?d1 = "(db m)\<lparr>answers := answers (db m) @ [a]\<rparr>"
  let ?s' = "s\<lparr>ss_answers := ss_answers s @ [x], evaluations := evaluations s @ [ev],
               current_question_index := current_question_index s + 1\<rparr>"
  have dbok: "db_ok ?d" using ok by (simp add: manager_ok_def)
  have sok: "session_ok ?d sid s" using manager_ok_held(1) [OF ok held] .
  from session_ok_question [OF sok c q]
  obtain r where r: "r \<in> set (questions ?d)" "qrow_session_id r = sid" "qrow_id r = question_id"
    and lt: "length (answered_questions ?d sid) < length (question_rows ?d sid)"
    by blast
  have ar: "arow_question_id a = qrow_id r" using a r(3) by simp
  have dbok1: "db_ok ?d1"
    using db_ok_answer_saved [OF dbok r(1) ar] lt r(2) by simp
  have rows: "question_rows ?d1 sid' = question_rows ?d sid'" for sid'
    by (simp add: question_rows_def)
  have ans: "length (answered_questions ?d1 sid')
               = length (answered_questions ?d sid') + (if sid = sid' then 1 else 0)" for sid'
    using answer_saved [OF dbok r(1) ar, of sid'] r(2) by simp
  have new: "session_ok ?d1 sid ?s'"
    using sok by (simp add: session_ok_def rows ans)
  have old: "session_ok ?d1 sid' s''" if "sid' \<noteq> sid" "current_sessions m sid' = Some s''" for sid' s''
    using manager_ok_held(1) [OF ok that(2)] that(1) by (simp add: session_ok_def rows ans)
  have n2: "length (ss_answers ?s') = current_question_index ?s'" if "\<not> lossy"
    using manager_ok_held(2) [OF ok held that] by simp
  show ?thesis
    unfolding manager_ok_def
  proof (intro conjI allI impI)
    show "db_ok (db (m\<lparr>db := ?d1, use_rouge_package := flag,
              current_sessions := (current_sessions m)(sid \<mapsto> ?s')\<rparr>))"
      using dbok1 by simp
  next
    fix sid' s''
    assume "current_sessions (m\<lparr>db := ?d1, use_rouge_package := flag,
              current_sessions := (current_sessions m)(sid \<mapsto> ?s')\<rparr>) sid' = Some s''"
    then show "session_ok (db (m\<lparr>db := ?d1, use_rouge_package := flag,
              current_sessions := (current_sessions m)(sid \<mapsto> ?s')\<rparr>)) sid' s''"
      using new old by (cases "sid' = sid") auto
  next
    fix sid'
    assume "\<not> lossy"
      and "question_rows (db (m\<lparr>db := ?d1, use_rouge_package := flag,
              current_sessions := (current_sessions m)(sid \<mapsto> ?s')\<rparr>)) sid' \<noteq> []"
    then show "current_sessions (m\<lparr>db := ?d1, use_rouge_package := flag,
              current_sessions := (current_sessions m)(sid \<mapsto> ?s')\<rparr>) sid' \<noteq> None"
      using ok by (auto simp: rows manager_ok_def)
  next
    fix sid' s''
    assume nl: "\<not> lossy"
      and "current_sessions (m\<lparr>db := ?d1, use_rouge_package := flag,
              current_sessions := (current_sessions m)(sid \<mapsto> ?s')\<rparr>) sid' = Some s''"
    then show "length (ss_answers s'') = current_question_index s''"
      using n2 ok by (cases "sid' = sid") (auto simp: manager_ok_def)
  qed
qed

lemma session_ok_completed:
  "session_ok d sid (s\<lparr>status := x, final_metrics := y\<rparr>) = session_ok d sid s"
  by (simp add: session_ok_def)

lemma manager_ok_complete:
  assumes "manager_ok lossy m" "current_sessions m sid = Some s"
  shows "manager_ok lossy (fst (complete_session m sid s))"
proof -
  have "manager_ok lossy (m\<lparr>current_sessions := (current_sessions m)
           (sid \<mapsto> s\<lparr>status := ''completed'',
                      final_metrics := Some (calculate_session_metrics (evaluations s))\<rparr>)\<rparr>)"
    using manager_ok_held [OF assms]
    by (intro manager_ok_update [OF assms(1)]) (simp_all add: session_ok_completed)
  then show ?thesis by (simp add: complete_session_def Let_def)
qed

lemma manager_ok_answer:
  assumes ok: "manager_ok lossy m"
  shows "manager_ok lossy (fst (process_answer e m sid answer))"
proof (cases "current_sessions m sid")
  case None
  then show ?thesis using ok by (simp add: process_answer_def)
next
  case (Some s)
  show ?thesis
  proof (cases "length (ss_questions s) \<le> current_question_index s")
    case True
    then show ?thesis using ok Some by (simp add: process_answer_def Let_def)
  next
    case False
    then have c: "current_question_index s < length (ss_questions s)" by simp
    let ?q = "ss_questions s ! current_question_index s"
    obtain ev flag where ev: "evaluate_answer e (use_rouge_package m) ?q answer = (ev, flag)"
      by (cases "evaluate_answer e (use_rouge_package m) ?q answer") auto
    show ?thesis
    proof (cases "db_id ?q")
      case None
      then show ?thesis
        using ok Some False ev by (simp add: process_answer_def Let_def manager_ok_flag)
    next
      case (Some question_id)
      let ?a = "\<lparr>arow_id = int (length (answers (db m))) + 1, arow_question_id = question_id,
                 arow_user_answer = answer, arow_semantic_score = semantic_score ev,
                 arow_keyword_score = keyword_score ev, arow_structure_score = structure_score ev,
                 arow_overall_score = overall_score ev, arow_feedback = feedback ev\<rparr>"
      let ?s' = "s\<lparr>ss_answers := ss_answers s @ [\<lparr>ans_question_id = q_id ?q, ans_answer = answer\<rparr>],
                   evaluations := evaluations s @ [ev],
                   current_question_index := current_question_index s + 1\<rparr>"
      let ?m' = "m\<lparr>db := (db m)\<lparr>answers := answers (db m) @ [?a]\<rparr>, use_rouge_package := flag,
                   current_sessions := (current_sessions m)(sid \<mapsto> ?s')\<rparr>"
      have m': "manager_ok lossy ?m'"
        by (rule manager_ok_answer_saved [OF ok \<open>current_sessions m sid = Some s\<close> c Some]) simp
      have held': "current_sessions ?m' sid = Some ?s'" by simp
      have compl: "manager_ok lossy (fst (complete_session ?m' sid ?s'))"
        by (rule manager_ok_complete [OF m' held'])
      have "fst (process_answer e m sid answer) = ?m'
            \<or> fst (process_answer e m sid answer) = fst (complete_session ?m' sid ?s')"
        using \<open>current_sessions m sid = Some s\<close> False ev Some
        by (simp add: process_answer_def Let_def save_answer_def)
      then show ?thesis using m' compl by auto
    qed
  qed
qed

lemma answered_none:
  assumes "\<forall>q \<in> set (questions d). qrow_session_id q \<noteq> sid"
  shows "answered_questions d sid = []"
proof -
  have "filter (\<lambda>q. qrow_id q = x \<and> qrow_session_id q = sid) (questions d) = []" for x
    using assms by (auto simp: filter_empty_conv)
  then show ?thesis by (simp add: answered_questions_def)
qed

lemma rows_none:
  assumes "\<forall>q \<in> set qs. qrow_session_id q \<noteq> sid"
  shows "filter (\<lambda>q. qrow_session_id q = sid) qs = []"
  using assms by (auto simp: filter_empty_conv)

lemma db_ok_questions_saved:
  assumes ok: "db_ok d"
    and len: "length rows = n"
    and ids: "\<forall>k < length rows. qrow_id (rows ! k) = int (length (questions d) + k) + 1
                                  \<and> qrow_session_id (rows ! k) = sid"
    and sid: "sid \<le> int (length (sessions d))"
  shows "db_ok (d\<lparr>questions := questions d @ rows\<rparr>)"
    and "answered_questions (d\<lparr>questions := questions d @ rows\<rparr>) sid' = answered_questions d sid'"
    and "\<forall>r \<in> set rows. qrow_session_id r = sid"
proof -
  let ?d = "d\<lparr>questions := questions d @ rows\<rparr>"
  show rs: "\<forall>r \<in> set rows. qrow_session_id r = sid"
    using ids by (auto simp: in_set_conv_nth)
  have ri: "\<forall>r \<in> set rows. int (length (questions d)) < qrow_id r"
    using ids by (auto simp: in_set_conv_nth)
  have w3: "\<forall>a \<in> set (answers d). arow_question_id a \<le> int (length (questions d))"
    using ok by (simp add: db_ok_def)
  show an: "answered_questions ?d sid'' = answered_questions d sid''" for sid''
    using w3 ri by (rule answered_append_questions)
  show "db_ok ?d"
    unfolding db_ok_def
  proof (intro conjI)
    show "\<forall>i<length (questions ?d). qrow_id (questions ?d ! i) = int i + 1"
    proof (intro allI impI)
      fix i assume i: "i < length (questions ?d)"
      show "qrow_id (questions ?d ! i) = int i + 1"
      proof (cases "i < length (questions d)")
        case True
        then show ?thesis using ok by (simp add: db_ok_def nth_append)
      next
        case False
        then have "i - length (questions d) < length rows" using i by simp
        then have "qrow_id (rows ! (i - length (questions d)))
                     = int (length (questions d) + (i - length (questions d))) + 1"
          using ids by blast
        then show ?thesis using False by (simp add: nth_append)
      qed
    qed
    show "\<forall>q\<in>set (questions ?d). qrow_session_id q \<le> int (length (sessions ?d))"
      using ok rs sid by (auto simp: db_ok_def)
    show "\<forall>a\<in>set (answers ?d). 1 \<le> arow_question_id a
            \<and> arow_question_id a \<le> int (length (questions ?d))"
      using ok by (auto simp: db_ok_def)
    show "\<forall>sid. length (answered_questions ?d sid) \<le> length (question_rows ?d sid)"
    proof
      fix sid''
      have "length (answered_questions d sid'') \<le> length (question_rows d sid'')"
        using ok by (simp add: db_ok_def)
      then show "length (answered_questions ?d sid'') \<le> length (question_rows ?d sid'')"
        by (simp add: an question_rows_append)
    qed
  qed
qed

lemma manager_ok_started:
  assumes ok: "manager_ok lossy m"
    and fresh: "\<forall>q \<in> set (questions (db m)). qrow_session_id q \<noteq> sid"
    and sid: "sid \<le> int (length (sessions (db m)))"
    and st: "ss_questions s = snd (save_questions (db m) sid generated)"
      "current_question_index s = 0" "ss_answers s = []" "evaluations s = []"
  shows "manager_ok lossy
           (m\<lparr>db := fst (save_questions (db m) sid generated),
              current_sessions := (current_sessions m)(sid \<mapsto> s)\<rparr>)"
proof -
  let ?d = "db m"
  from save_questions_rows [of ?d sid generated] obtain rows where
    d2: "fst (save_questions ?d sid generated) = ?d\<lparr>questions := questions ?d @ rows\<rparr>"
    and ids: "\<forall>k < length rows. qrow_id (rows ! k) = int (length (questions ?d) + k) + 1
                                  \<and> qrow_session_id (rows ! k) = sid"
    and dbids: "map db_id (snd (save_questions ?d sid generated)) = map (\<lambda>r. Some (qrow_id r)) rows"
    by blast
  let ?d2 = "?d\<lparr>questions := questions ?d @ rows\<rparr>"
  have dbok: "db_ok ?d" using ok by (simp add: manager_ok_def)
  have dbok2: "db_ok ?d2"
    and an: "\<And>sid'. answered_questions ?d2 sid' = answered_questions ?d sid'"
    and rs: "\<forall>r \<in> set rows. qrow_session_id r = sid"
    using db_ok_questions_saved [OF dbok refl ids sid] by blast+
  have rows_sid: "question_rows ?d2 sid = rows"
    using rows_none [OF fresh] rs by (simp add: question_rows_append question_rows_def filter_id_conv)
  have rows_other: "question_rows ?d2 sid' = question_rows ?d sid'" if "sid' \<noteq> sid" for sid'
    using rs that by (simp add: question_rows_append filter_empty_conv)
  have new: "session_ok ?d2 sid s"
    using st dbids by (simp add: session_ok_def rows_sid an answered_none [OF fresh])
  have old: "session_ok ?d2 sid' s'" if "sid' \<noteq> sid" "current_sessions m sid' = Some s'" for sid' s'
    using manager_ok_held(1) [OF ok that(2)] by (simp add: session_ok_def rows_other [OF that(1)] an)
  have "manager_ok lossy (m\<lparr>db := ?d2, current_sessions := (current_sessions m)(sid \<mapsto> s)\<rparr>)"
    unfolding manager_ok_def
  proof (intro conjI allI impI)
    show "db_ok (db (m\<lparr>db := ?d2, current_sessions := (current_sessions m)(sid \<mapsto> s)\<rparr>))"
      using dbok2 by simp
  next
    fix sid' s'
    assume "current_sessions (m\<lparr>db := ?d2, current_sessions := (current_sessions m)(sid \<mapsto> s)\<rparr>) sid'
              = Some s'"
    then show "session_ok (db (m\<lparr>db := ?d2, current_sessions := (current_sessions m)(sid \<mapsto> s)\<rparr>))
                 sid' s'"
      using new old by (cases "sid' = sid") auto
  next
    fix sid'
    assume "\<not> lossy"
      and "question_rows (db (m\<lparr>db := ?d2, current_sessions := (current_sessions m)(sid \<mapsto> s)\<rparr>)) sid'
             \<noteq> []"
    then show "current_sessions (m\<lparr>db := ?d2, current_sessions := (current_sessions m)(sid \<mapsto> s)\<rparr>)
                 sid' \<noteq> None"
      using ok rows_other by (cases "sid' = sid") (auto simp: manager_ok_def)
  next
    fix sid' s'
    assume "\<not> lossy"
      and "current_sessions (m\<lparr>db := ?d2, current_sessions := (current_sessions m)(sid \<mapsto> s)\<rparr>) sid'
             = Some s'"
    then show "length (ss_answers s') = current_question_index s'"
      using ok st by (cases "sid' = sid") (auto simp: manager_ok_def)
  qed
  then show ?thesis by (simp add: d2)
qed

lemma start_outcomes:
  "fst (start_interview_session src m user_id domain job_description prefs)
     = m\<lparr>db := fst (create_session (db m) user_id domain)\<rparr>
   \<or> (\<exists>generated s.
         fst (start_interview_session src m user_id domain job_description prefs)
           = m\<lparr>db := fst (save_questions (fst (create_session (db m) user_id domain))
                             (int (length (sessions (db m))) + 1) generated),
                current_sessions := (current_sessions m)(int (length (sessions (db m))) + 1 \<mapsto> s)\<rparr>
         \<and> ss_questions s = snd (save_questions (fst (create_session (db m) user_id domain))
                                    (int (length (sessions (db m))) + 1) generated)
         \<and> current_question_index s = 0 \<and> ss_answers s = [] \<and> evaluations s = [])"
proof -
  have sid: "snd (create_session (db m) user_id domain) = int (length (sessions (db m))) + 1"
    by (simp add: create_session_def Let_def)
  show ?thesis
    unfolding start_interview_session_def Let_def split_beta sid
    by (auto split: option.splits sum.splits intro!: exI)
qed

lemma manager_ok_start:
  assumes ok: "manager_ok lossy m"
  shows "manager_ok lossy (fst (start_interview_session src m user_id domain job_description prefs))"
proof -
  let ?d1 = "fst (create_session (db m) user_id domain)"
  let ?sid = "int (length (sessions (db m))) + 1"
  let ?m1 = "m\<lparr>db := ?d1\<rparr>"
  have t: "questions ?d1 = questions (db m)" "answers ?d1 = answers (db m)"
    "length (sessions ?d1) = length (sessions (db m)) + 1"
    by (simp_all add: create_session_def Let_def)
  have m1: "manager_ok lossy ?m1"
    by (rule manager_ok_same_tables [OF ok]) (simp_all add: t)
  have fresh: "\<forall>q \<in> set (questions (db ?m1)). qrow_session_id q \<noteq> ?sid"
    using ok by (fastforce simp: manager_ok_def db_ok_def t)
  have sid: "?sid \<le> int (length (sessions (db ?m1)))" by (simp add: t)
  from start_outcomes [of src m user_id domain job_description prefs]
  show ?thesis
  proof
    assume "fst (start_interview_session src m user_id domain job_description prefs) = ?m1"
    then show ?thesis using m1 by simp
  next
    assume "\<exists>generated s.
         fst (start_interview_session src m user_id domain job_description prefs)
           = m\<lparr>db := fst (save_questions ?d1 ?sid generated),
                current_sessions := (current_sessions m)(?sid \<mapsto> s)\<rparr>
         \<and> ss_questions s = snd (save_questions ?d1 ?sid generated)
         \<and> current_question_index s = 0 \<and> ss_answers s = [] \<and> evaluations s = []"
    then obtain generated s where
      r: "fst (start_interview_session src m user_id domain job_description prefs)
           = m\<lparr>db := fst (save_questions ?d1 ?sid generated),
                current_sessions := (current_sessions m)(?sid \<mapsto> s)\<rparr>"
      and s: "ss_questions s = snd (save_questions ?d1 ?sid generated)"
        "current_question_index s = 0" "ss_answers s = []" "evaluations s = []"
      by blast
    have "manager_ok lossy
            (?m1\<lparr>db := fst (save_questions (db ?m1) ?sid generated),
                 current_sessions := (current_sessions ?m1)(?sid \<mapsto> s)\<rparr>)"
      by (rule manager_ok_started [OF m1 fresh sid]) (simp_all add: s)
    then show ?thesis by (simp add: r)
  qed
qed

lemma reachable_ok: "reachable lossy m \<Longrightarrow> manager_ok lossy m"
proof (induction rule: reachable.induct)
  case (reach_new flag)
  show ?case by (rule manager_ok_new)
next
  case (reach_user m name email domain level)
  then show ?case by (simp add: manager_ok_create_user)
next
  case (reach_start m src user_id domain job_description prefs)
  then show ?case by (simp add: manager_ok_start)
next
  case (reach_answer m e sid answer)
  then show ?case by (simp add: manager_ok_answer)
next
  case (reach_status m sid)
  then show ?case by (simp add: manager_ok_status)
next
  case (reach_pause m sid)
  then show ?case by (simp add: manager_ok_pause)
next
  case (reach_resume m sid)
  then show ?case by (simp add: manager_ok_resume)
next
  case (reach_end m sid)
  then show ?case by (simp add: manager_ok_end)
next
  case (reach_loss m flag)
  then show ?case using manager_ok_loss by (cases lossy) simp_all
qed

lemma manager_ok_bounds:
  assumes "manager_ok lossy m" "current_sessions m sid = Some s"
  shows "current_question_index s \<le> length (ss_questions s)
         \<and> length (ss_answers s) = length (evaluations s)
         \<and> length (ss_answers s) \<le> current_question_index s
         \<and> (\<not> lossy \<longrightarrow> length (ss_answers s) = current_question_index s)"
proof -
  have sok: "session_ok (db m) sid s" using manager_ok_held(1) [OF assms] .
  have "length (ss_questions s) = length (question_rows (db m) sid)"
    using sok by (metis session_ok_def length_map)
  moreover have "length (answered_questions (db m) sid) \<le> length (question_rows (db m) sid)"
    using assms(1) by (simp add: manager_ok_def db_ok_def)
  ultimately show ?thesis
    using sok manager_ok_held(2) [OF assms] by (auto simp: session_ok_def)
qed

text \<open>
  Claim C2, amended. In every reachable state, also after restarts and restored sessions,
  a session the manager holds stands at a position that is at most the number of its
  questions, and holds as many answers as evaluations, at most as many as its position.
  In the states reached without a restart, the number of answers equals the position.
\<close>
theorem reachable_sessions_cursor_and_answers:
  assumes "reachable lossy m" and "current_sessions m sid = Some s"
  shows "current_question_index s \<le> length (ss_questions s)
         \<and> length (ss_answers s) = length (evaluations s)
         \<and> length (ss_answers s) \<le> current_question_index s
         \<and> (\<not> lossy \<longrightarrow> length (ss_answers s) = current_question_index s)"
  using reachable_ok [OF assms(1)] assms(2) by (rule manager_ok_bounds)

lemma example_reachable:
  "reachable lossy example_with_user" "reachable lossy example_started"
  "reachable lossy example_answered"
proof -
  have r0: "reachable lossy (new_manager False)" by (rule reach_new)
  have "example_with_user
          = (new_manager False)\<lparr>db := fst (create_user (db (new_manager False)) ''Ada''
                ''ada@example.org'' ''Software Engineering'' ''Beginner'')\<rparr>"
    by (simp add: example_with_user_def new_manager_def)
  then show r1: "reachable lossy example_with_user"
    using reach_user [OF r0, where name = "''Ada''" and email = "''ada@example.org''"
        and domain = "''Software Engineering''" and level = "''Beginner''"]
    by simp
  show r2: "reachable lossy example_started"
    unfolding example_started_def by (rule reach_start [OF r1])
  show "reachable lossy example_answered"
    unfolding example_answered_def by (rule reach_answer [OF r2])
qed

lemma example_restored_reachable: "reachable True example_restored"
proof -
  have "reachable True example_restarted"
    unfolding example_restarted_def by (rule reach_loss [OF TrueI example_reachable(3)])
  then show ?thesis
    unfolding example_restored_def by (rule reach_status)
qed

theorem restored_session_answers_counterexample:
  "reachable True example_restored
   \<and> current_sessions example_restored 1 = Some restored_session
   \<and> length (ss_answers restored_session) = 0
   \<and> current_question_index restored_session = 1
   \<and> length (ss_answers restored_session) \<noteq> current_question_index restored_session"
  using example_restored_reachable
  by (simp add: example_restored_eq restored_session_def)

theorem reachable_sessions_witness:
  "reachable False example_answered
   \<and> current_sessions example_answered 1 = Some example_answered_session
   \<and> current_question_index example_answered_session = 1
   \<and> current_question_index example_answered_session
       \<le> length (ss_questions example_answered_session)
   \<and> length (ss_answers example_answered_session) = length (evaluations example_answered_session)
   \<and> length (ss_answers example_answered_session)
       = current_question_index example_answered_session
   \<and> reachable True example_restored
   \<and> current_sessions example_restored 1 = Some restored_session
   \<and> current_question_index restored_session \<le> length (ss_questions restored_session)
   \<and> length (ss_answers restored_session) = length (evaluations restored_session)
   \<and> length (ss_answers restored_session) \<le> current_question_index restored_session"
proof -
  have r: "reachable False example_answered" by (rule example_reachable(3))
  have h: "current_sessions example_answered 1 = Some example_answered_session"
    by (simp add: example_answered_eq)
  have c: "current_question_index example_answered_session = 1"
    by (simp add: example_answered_session_def)
  have h': "current_sessions example_restored 1 = Some restored_session"
    by (simp add: example_restored_eq)
  show ?thesis
    using r h c h' example_restored_reachable
      reachable_sessions_cursor_and_answers [OF r h]
      reachable_sessions_cursor_and_answers [OF example_restored_reachable h']
    by simp
qed

end
